theory Spec2Isabelle
  imports Complex_Main "HOL-Library.Word"
begin

section \<open>Values: buffers, shapes, arrays, errors\<close>

text \<open>
  The chunk engine of \<^verbatim>\<open>hub/core/chunk_engine.py\<close> packs samples, each a pair of a byte
  buffer and a shape, into chunks. Python integers are unbounded and are modelled as
  \<open>int\<close>; \<open>len\<close> of a buffer is \<open>int (length buffer)\<close>. Every exception the engine can
  raise is a value of \<open>error\<close>, and every method returns its outcome together with the
  state it leaves behind, so that a failure after a partial mutation shows the mutation.
\<close>

type_synonym byte = "8 word"
type_synonym buffer = "byte list"
type_synonym shape = "nat list"
type_synonym chunk_id = "64 word"
type_synonym chunk_name = string

datatype error =
    ReadOnly | Corrupted | DynamicShape | Unsupported | UpdateSampleError
  | NotImplementedError | InvalidShape | InvalidDtype | FullChunk | IndexError | KeyError
  | ValueError | TypeError

record np_dtype =
  dtype_name :: string
  itemsize :: nat

record ndarray =
  arr_shape :: shape
  arr_dtype :: np_dtype
  arr_bytes :: buffer

definition MiB :: int where
  "MiB = 1048576"

text \<open>
  numpy is a library outside the repository. The three calls the engine makes are modelled
  on raw bytes: \<open>np.zeros(shape, dtype)\<close> (a missing dtype is numpy's default, float64),
  \<open>np.frombuffer(buffer, dtype)\<close> (the buffer must be a whole number of items) and
  \<open>reshape\<close> (the item count must match the shape).
\<close>

definition float64 :: np_dtype where
  "float64 = \<lparr>dtype_name = ''float64'', itemsize = 8\<rparr>"

definition np_dtype_of :: "np_dtype option \<Rightarrow> np_dtype" where
  "np_dtype_of d = (case d of None \<Rightarrow> float64 | Some t \<Rightarrow> t)"

definition np_zeros :: "shape \<Rightarrow> np_dtype option \<Rightarrow> ndarray" where
  "np_zeros shp d =
     \<lparr>arr_shape = shp, arr_dtype = np_dtype_of d,
      arr_bytes = replicate (prod_list shp * itemsize (np_dtype_of d)) 0\<rparr>"

definition np_frombuffer :: "buffer \<Rightarrow> np_dtype option \<Rightarrow> error + ndarray" where
  "np_frombuffer buf d =
     (let t = np_dtype_of d in
      if itemsize t = 0 \<or> length buf mod itemsize t \<noteq> 0 then Inl ValueError
      else Inr \<lparr>arr_shape = [length buf div itemsize t], arr_dtype = t, arr_bytes = buf\<rparr>)"

definition reshape :: "ndarray \<Rightarrow> shape \<Rightarrow> error + ndarray" where
  "reshape a shp =
     (if prod_list shp = prod_list (arr_shape a) then Inr (a\<lparr>arr_shape := shp\<rparr>)
      else Inl ValueError)"

text \<open>
  Python's \<open>buffer[sb:eb]\<close> and \<open>buffer[:e]\<close> on a sequence: a negative bound counts from
  the end, bounds are clipped to the sequence, and no slice raises.
\<close>

definition py_bound :: "nat \<Rightarrow> int \<Rightarrow> nat" where
  "py_bound n i = (if i < 0 then nat (int n + i) else min n (nat i))"

definition py_slice :: "'a list \<Rightarrow> int \<Rightarrow> int \<Rightarrow> 'a list" where
  "py_slice xs sb eb = drop (py_bound (length xs) sb) (take (py_bound (length xs) eb) xs)"

definition py_slice_to :: "'a list \<Rightarrow> int \<Rightarrow> 'a list" where
  "py_slice_to xs e = take (py_bound (length xs) e) xs"

text \<open>Python's \<open>xs[i]\<close> on a list: a negative index counts from the end; out of range raises.\<close>

definition py_index :: "'a list \<Rightarrow> int \<Rightarrow> error + 'a" where
  "py_index xs i =
     (if 0 \<le> i \<and> i < int (length xs) then Inr (xs ! nat i)
      else if i < 0 \<and> - int (length xs) \<le> i then Inr (xs ! nat (int (length xs) + i))
      else Inl IndexError)"

section \<open>TensorMeta\<close>

text \<open>
  Modelled from the spec: class \<open>TensorMeta\<close> (\<^verbatim>\<open>hub/core/meta/tensor_meta.py\<close>) is not among
  the sources. Section 4.4 of the spec gives its fields; \<open>update_shape_interval\<close> widens
  \<open>min_shape\<close> and \<open>max_shape\<close> element-wise and, after the first sample, fails with
  \<open>InvalidShape\<close> when the number of dimensions differs. The first sample is the one that
  arrives while \<open>length\<close> is still 0.
\<close>

record tensor_meta =
  dtype :: "np_dtype option"
  min_shape :: shape
  max_shape :: shape
  meta_length :: int
  meta_max_chunk_size :: "int option"
  sample_compression :: "string option"

definition update_shape_interval :: "tensor_meta \<Rightarrow> shape \<Rightarrow> error + tensor_meta" where
  "update_shape_interval tm shp =
     (if meta_length tm \<le> 0 then Inr (tm\<lparr>min_shape := shp, max_shape := shp\<rparr>)
      else if length shp \<noteq> length (min_shape tm) then Inl InvalidShape
      else Inr (tm\<lparr>min_shape := map2 min shp (min_shape tm),
                    max_shape := map2 max shp (max_shape tm)\<rparr>))"

definition set_dtype :: "tensor_meta \<Rightarrow> np_dtype \<Rightarrow> tensor_meta" where
  "set_dtype tm d = tm\<lparr>dtype := Some d\<rparr>"

section \<open>ChunkIdEncoder\<close>

text \<open>
  Modelled from the spec: class \<open>ChunkIdEncoder\<close> (\<^verbatim>\<open>hub/core/meta/encode/chunk_id.py\<close>) is
  not among the sources. Sections 3 and 4.3 of the spec describe it as a table of rows
  \<open>(chunk_id, last_global_sample_index)\<close>, sorted by the second column.
  \<^item> \<open>generate_chunk_id\<close> returns a random 64-bit id; the model receives the drawn id as an
    argument and remembers it as the latest chunk id.
  \<^item> \<open>register_samples n\<close> extends the last row's last-index by \<open>n\<close> or, when a new chunk has
    just been created, appends a new row with the latest chunk id.
  \<^item> A lookup for \<open>g\<close> finds the first row whose last-index is at least \<open>g\<close>.
  \<^item> The local index is \<open>g - last_index_of_previous_row - 1\<close>, or \<open>g\<close> in the first row.
  \<^item> \<open>name_from_id\<close> is the lowercase hexadecimal numeral of the id, zero-padded (section 6).
\<close>

record chunk_id_encoder =
  rows :: "(chunk_id \<times> int) list"
  latest_id :: "chunk_id option"

definition blank_encoder :: chunk_id_encoder where
  "blank_encoder = \<lparr>rows = [], latest_id = None\<rparr>"

definition enc_num_samples :: "chunk_id_encoder \<Rightarrow> int" where
  "enc_num_samples enc = (if rows enc = [] then 0 else snd (last (rows enc)) + 1)"

definition enc_num_chunks :: "chunk_id_encoder \<Rightarrow> int" where
  "enc_num_chunks enc = int (length (rows enc))"

definition generate_chunk_id :: "chunk_id_encoder \<Rightarrow> chunk_id \<Rightarrow> chunk_id \<times> chunk_id_encoder" where
  "generate_chunk_id enc r = (r, enc\<lparr>latest_id := Some r\<rparr>)"

definition register_samples :: "chunk_id_encoder \<Rightarrow> int \<Rightarrow> error + chunk_id_encoder" where
  "register_samples enc n =
     (case latest_id enc of
        Some i \<Rightarrow>
          Inr (enc\<lparr>rows := rows enc @ [(i, enc_num_samples enc - 1 + n)], latest_id := None\<rparr>)
      | None \<Rightarrow>
          (if rows enc = [] then Inl IndexError
           else Inr (enc\<lparr>rows := butlast (rows enc) @
                        [(fst (last (rows enc)), snd (last (rows enc)) + n)]\<rparr>)))"

fun row_for :: "(chunk_id \<times> int) list \<Rightarrow> int \<Rightarrow> nat option" where
  "row_for [] g = None"
| "row_for ((c, l) # rs) g = (if g \<le> l then Some 0 else map_option Suc (row_for rs g))"

definition enc_getitem :: "chunk_id_encoder \<Rightarrow> int \<Rightarrow> error + chunk_id" where
  "enc_getitem enc g =
     (case row_for (rows enc) g of
        None \<Rightarrow> Inl IndexError
      | Some k \<Rightarrow> Inr (fst (rows enc ! k)))"

definition translate_index_relative_to_chunks :: "chunk_id_encoder \<Rightarrow> int \<Rightarrow> error + int" where
  "translate_index_relative_to_chunks enc g =
     (case row_for (rows enc) g of
        None \<Rightarrow> Inl IndexError
      | Some k \<Rightarrow> Inr (if k = 0 then g else g - snd (rows enc ! (k - 1)) - 1))"

definition hex_digit :: "nat \<Rightarrow> char" where
  "hex_digit d = ''0123456789abcdef'' ! d"

fun to_hex :: "nat \<Rightarrow> nat \<Rightarrow> string" where
  "to_hex 0 n = []"
| "to_hex (Suc k) n = to_hex k (n div 16) @ [hex_digit (n mod 16)]"

definition name_from_id :: "chunk_id \<Rightarrow> chunk_name" where
  "name_from_id i = to_hex 16 (unat i)"

definition get_name_for_chunk :: "chunk_id_encoder \<Rightarrow> int \<Rightarrow> error + chunk_name" where
  "get_name_for_chunk enc i =
     (case py_index (rows enc) i of
        Inl e \<Rightarrow> Inl e
      | Inr row \<Rightarrow> Inr (name_from_id (fst row)))"

section \<open>Chunk\<close>

text \<open>
  Modelled from the spec: class \<open>Chunk\<close> (\<^verbatim>\<open>hub/core/chunk.py\<close>) is not among the sources.
  Sections 3 and 4.2 of the spec give it a byte buffer and two local encoders, from the
  local sample index to the shape and to \<open>(start_byte, end_byte)\<close>; the model keeps the
  two mappings they encode, one entry for each local sample.
  \<^item> \<open>is_under_min_space min\<close> equals \<open>num_data_bytes < min\<close>.
  \<^item> \<open>append_sample\<close> rejects when adding would exceed \<open>max_chunk_size\<close>; otherwise it appends
    the buffer and registers the sample in both encoders.
  \<^item> \<open>update_sample\<close> splices out the old \<open>[start, end)\<close>, splices in the new buffer, shifts
    the byte positions from the local index onwards by \<open>len(buffer) - (end - start)\<close>
    (ranges stay contiguous) and replaces the shape at the local index.
  \<^item> A local encoder maps the local indices \<open>0 \<le> i < n\<close>; any other index fails.
  \<^item> \<open>nbytes\<close> is the size of the serialised chunk, which section 6 lays out as
    \<open>version | shape_encoder_blob | byte_positions_encoder_blob | data_bytes\<close>: the data
    bytes and, before them, a header made of the version and the blobs of the two local
    encoders. The spec does not give the size of these three parts; the model takes the
    size of the header as a parameter \<open>header_nbytes\<close>, a function of the two local encoders.
\<close>

record chunk =
  data :: buffer
  shapes_encoder :: "shape list"
  byte_positions_encoder :: "(int \<times> int) list"

definition new_Chunk :: chunk where
  "new_Chunk = \<lparr>data = [], shapes_encoder = [], byte_positions_encoder = []\<rparr>"

definition num_data_bytes :: "chunk \<Rightarrow> int" where
  "num_data_bytes c = int (length (data c))"

definition nbytes :: "(shape list \<Rightarrow> (int \<times> int) list \<Rightarrow> nat) \<Rightarrow> chunk \<Rightarrow> int" where
  "nbytes header_nbytes c =
     int (header_nbytes (shapes_encoder c) (byte_positions_encoder c)) + num_data_bytes c"

definition is_under_min_space :: "chunk \<Rightarrow> int \<Rightarrow> bool" where
  "is_under_min_space c min_data_bytes_target \<longleftrightarrow> num_data_bytes c < min_data_bytes_target"

definition append_sample :: "chunk \<Rightarrow> buffer \<Rightarrow> int \<Rightarrow> shape \<Rightarrow> error + chunk" where
  "append_sample c buf max_data_bytes shp =
     (if num_data_bytes c + int (length buf) > max_data_bytes then Inl FullChunk
      else Inr \<lparr>data = data c @ buf,
                shapes_encoder = shapes_encoder c @ [shp],
                byte_positions_encoder = byte_positions_encoder c @
                  [(num_data_bytes c, num_data_bytes c + int (length buf))]\<rparr>)"

definition local_lookup :: "'a list \<Rightarrow> int \<Rightarrow> error + 'a" where
  "local_lookup xs i = (if 0 \<le> i \<and> i < int (length xs) then Inr (xs ! nat i) else Inl IndexError)"

definition shift_range :: "int \<Rightarrow> int \<times> int \<Rightarrow> int \<times> int" where
  "shift_range delta r = (fst r + delta, snd r + delta)"

definition update_sample :: "chunk \<Rightarrow> int \<Rightarrow> buffer \<Rightarrow> shape \<Rightarrow> error + chunk" where
  "update_sample c local_sample_index buf shp =
     (case local_lookup (byte_positions_encoder c) local_sample_index of
        Inl e \<Rightarrow> Inl e
      | Inr (sb, eb) \<Rightarrow>
          (let i = nat local_sample_index;
               delta = int (length buf) - (eb - sb)
           in Inr \<lparr>data = py_slice_to (data c) sb @ buf @
                            drop (py_bound (length (data c)) eb) (data c),
                   shapes_encoder = (shapes_encoder c)[i := shp],
                   byte_positions_encoder =
                     take i (byte_positions_encoder c) @ [(sb, eb + delta)] @
                     map (shift_range delta) (drop (Suc i) (byte_positions_encoder c))\<rparr>))"

section \<open>What the engine receives from outside\<close>

text \<open>
  User values reach the engine as scalars, arrays or sequences; \<open>_make_sequence\<close> asks a
  value for \<open>__len__\<close> and \<open>shape\<close>. The sample codec (\<open>serialize_input_samples\<close>,
  \<open>get_dtype\<close>), the decompressor and numpy's \<open>astype\<close> are outside the repository's core
  (section 4.5 of the spec) and are parameters of the model, collected in \<open>codec\<close>; with
  them comes the size of a chunk's serialised header, \<open>chunk_header_nbytes\<close>, that \<open>nbytes\<close>
  needs and the spec leaves open.
  Class \<open>Index\<close> (\<^verbatim>\<open>hub/core/index/index.py\<close>) is not among the sources either and the spec
  does not describe it: an index is the record of the answers it gives to the five calls
  the engine makes.
\<close>

datatype 'a pyval = Scalar 'a | Array ndarray | PyList "'a pyval list"

record 'a codec =
  serialize_input_samples :: "'a pyval \<Rightarrow> tensor_meta \<Rightarrow> int \<Rightarrow> error + (buffer \<times> shape) list"
  get_dtype :: "'a pyval \<Rightarrow> np_dtype"
  decompress_array :: "buffer \<Rightarrow> shape \<Rightarrow> error + ndarray"
  astype :: "ndarray \<Rightarrow> np_dtype option \<Rightarrow> ndarray"
  chunk_header_nbytes :: "shape list \<Rightarrow> (int \<times> int) list \<Rightarrow> nat"

record index =
  indices :: "int \<Rightarrow> int list"
  index_length :: "int \<Rightarrow> int"
  is_single_dim_effective :: bool
  subscriptable :: bool
  index_apply :: "ndarray list \<Rightarrow> ndarray list"

section \<open>The engine state\<close>

text \<open>
  The engine reads and writes three kinds of objects in its cache: the tensor meta, the
  chunk id encoder (absent until first created) and the chunks, stored under the key
  built from their name. \<open>get_chunk_key\<close> (\<^verbatim>\<open>hub/util/keys.py\<close>) joins the tensor key, which
  is fixed for one engine, with the chunk name; the model keys the chunks by their name.
  The cache returns the cached object itself, so a method that mutates a chunk or the
  encoder in place changes the cache; the model writes the changed value back under its
  key. The random chunk ids come from \<open>random_ids\<close>, the \<open>n\<close>-th draw being \<open>random_ids n\<close>.
\<close>

record engine =
  cache_readonly :: bool
  tensor_meta :: tensor_meta
  chunk_id_encoder_blob :: "chunk_id_encoder option"
  chunks :: "chunk_name \<rightharpoonup> chunk"
  random_ids :: "nat \<Rightarrow> chunk_id"
  ids_drawn :: nat

type_synonym 'a result = "(error + 'a) \<times> engine"

definition ok :: "'a \<Rightarrow> engine \<Rightarrow> 'a result" where
  "ok x s = (Inr x, s)"

definition raise :: "error \<Rightarrow> engine \<Rightarrow> 'a result" where
  "raise e s = (Inl e, s)"

definition lift :: "error + 'a \<Rightarrow> engine \<Rightarrow> 'a result" where
  "lift r s = (case r of Inl e \<Rightarrow> (Inl e, s) | Inr x \<Rightarrow> (Inr x, s))"

definition bind_eng :: "(engine \<Rightarrow> 'a result) \<Rightarrow> ('a \<Rightarrow> engine \<Rightarrow> 'b result) \<Rightarrow> engine \<Rightarrow> 'b result" where
  "bind_eng m f s = (case m s of (Inl e, s') \<Rightarrow> (Inl e, s') | (Inr x, s') \<Rightarrow> f x s')"

text \<open>
  Modelled from the spec: the constant \<open>DEFAULT_MAX_CHUNK_SIZE\<close> of \<^verbatim>\<open>hub/constants.py\<close> is
  not among the sources; the spec only says that a default is provided. It is taken as
  the 32 MiB of the engine's docstring; the proofs use no more than that it is positive.
  \<open>check_readonly\<close> of the cache fails with \<open>ReadOnly\<close> on read-only storage (section 5).
\<close>

definition DEFAULT_MAX_CHUNK_SIZE :: int where
  "DEFAULT_MAX_CHUNK_SIZE = 32 * MiB"

definition check_readonly :: "engine \<Rightarrow> unit result" where
  "check_readonly s = (if cache_readonly s then raise ReadOnly s else ok () s)"

definition max_chunk_size :: "engine \<Rightarrow> int" where
  "max_chunk_size s =
     (case meta_max_chunk_size (tensor_meta s) of
        None \<Rightarrow> DEFAULT_MAX_CHUNK_SIZE
      | Some m \<Rightarrow> if m = 0 then DEFAULT_MAX_CHUNK_SIZE else m)"

definition min_chunk_size :: "engine \<Rightarrow> int" where
  "min_chunk_size s = max_chunk_size s div 2"

definition chunk_id_encoder_exists :: "engine \<Rightarrow> bool" where
  "chunk_id_encoder_exists s \<longleftrightarrow> chunk_id_encoder_blob s \<noteq> None"

definition chunk_id_encoder :: "engine \<Rightarrow> chunk_id_encoder result" where
  "chunk_id_encoder s =
     (case chunk_id_encoder_blob s of
        None \<Rightarrow>
          if meta_length (tensor_meta s) > 1 then raise Corrupted s
          else ok blank_encoder (s\<lparr>chunk_id_encoder_blob := Some blank_encoder\<rparr>)
      | Some enc \<Rightarrow> ok enc s)"

definition num_chunks :: "engine \<Rightarrow> int" where
  "num_chunks s =
     (case chunk_id_encoder_blob s of None \<Rightarrow> 0 | Some enc \<Rightarrow> enc_num_chunks enc)"

definition num_samples :: "engine \<Rightarrow> int" where
  "num_samples s =
     (case chunk_id_encoder_blob s of None \<Rightarrow> 0 | Some enc \<Rightarrow> enc_num_samples enc)"

definition get_chunk :: "chunk_name \<Rightarrow> engine \<Rightarrow> chunk result" where
  "get_chunk chunk_key s =
     (case chunks s chunk_key of None \<Rightarrow> raise KeyError s | Some c \<Rightarrow> ok c s)"

definition put_chunk :: "chunk_name \<Rightarrow> chunk \<Rightarrow> engine \<Rightarrow> unit result" where
  "put_chunk chunk_key c s = ok () (s\<lparr>chunks := (chunks s)(chunk_key \<mapsto> c)\<rparr>)"

definition last_chunk_key :: "engine \<Rightarrow> chunk_name result" where
  "last_chunk_key = bind_eng chunk_id_encoder (\<lambda>enc. lift (get_name_for_chunk enc (- 1)))"

definition last_chunk :: "engine \<Rightarrow> chunk option result" where
  "last_chunk s =
     (if num_chunks s = 0 then ok None s
      else bind_eng last_chunk_key (\<lambda>k. bind_eng (get_chunk k) (\<lambda>c. ok (Some c))) s)"

section \<open>Appending\<close>

text \<open>
  \<open>_min_chunk_ct_for_data_size\<close> is \<open>ceil(size / chunk_max_data_bytes)\<close>, with Python's true
  division. The division is modelled on the reals; Python rounds the quotient to a
  double first, which gives the same ceiling for all byte counts below \<open>2 ^ 53\<close>. The
  divisor is \<open>max_chunk_size\<close>, which is never 0 (\<open>max_chunk_size_nonzero\<close> below).
\<close>

definition min_chunk_ct_for_data_size :: "int \<Rightarrow> int \<Rightarrow> int" where
  "min_chunk_ct_for_data_size chunk_max_data_bytes size' =
     \<lceil>real_of_int size' / real_of_int chunk_max_data_bytes\<rceil>"

definition try_appending_to_last_chunk :: "buffer \<Rightarrow> shape \<Rightarrow> engine \<Rightarrow> bool result" where
  "try_appending_to_last_chunk buf shp =
     bind_eng last_chunk (\<lambda>lc s.
       case lc of
         None \<Rightarrow> ok False s
       | Some last_chunk' \<Rightarrow>
           (let incoming_num_bytes = int (length buf) in
            if is_under_min_space last_chunk' (min_chunk_size s) then
              (let last_chunk_size = num_data_bytes last_chunk';
                   chunk_ct_content =
                     min_chunk_ct_for_data_size (max_chunk_size s) incoming_num_bytes;
                   extra_bytes = min incoming_num_bytes (max_chunk_size s - last_chunk_size);
                   combined_chunk_ct =
                     min_chunk_ct_for_data_size (max_chunk_size s)
                       (incoming_num_bytes + last_chunk_size)
               in if combined_chunk_ct = chunk_ct_content then
                    bind_eng
                      (lift (append_sample last_chunk' (py_slice_to buf extra_bytes)
                               (max_chunk_size s) shp))
                      (\<lambda>c. bind_eng last_chunk_key
                        (\<lambda>k. bind_eng (put_chunk k c) (\<lambda>_. ok True))) s
                  else ok False s)
            else ok False s))"

definition create_new_chunk :: "engine \<Rightarrow> (chunk_name \<times> chunk) result" where
  "create_new_chunk =
     bind_eng chunk_id_encoder (\<lambda>enc s.
       let (chunk_id, enc') = generate_chunk_id enc (random_ids s (ids_drawn s));
           chunk_name = name_from_id chunk_id
       in ok (chunk_name, new_Chunk)
            (s\<lparr>chunk_id_encoder_blob := Some enc',
               ids_drawn := Suc (ids_drawn s),
               chunks := (chunks s)(chunk_name \<mapsto> new_Chunk)\<rparr>))"

definition append_to_new_chunk :: "buffer \<Rightarrow> shape \<Rightarrow> engine \<Rightarrow> unit result" where
  "append_to_new_chunk buf shp =
     bind_eng create_new_chunk (\<lambda>(k, new_chunk) s.
       bind_eng (lift (append_sample new_chunk buf (max_chunk_size s) shp))
         (\<lambda>c. put_chunk k c) s)"

text \<open>
  \<open>_synchronize_cache\<close> fetches each chunk to report its size to the cache and stores the
  tensor meta and the encoder under their keys again. The size bookkeeping of the cache
  is not part of the model; what remains is that every fetch can fail.
\<close>

fun get_chunks :: "chunk_name list \<Rightarrow> engine \<Rightarrow> unit result" where
  "get_chunks [] s = ok () s"
| "get_chunks (k # ks) s = bind_eng (get_chunk k) (\<lambda>_. get_chunks ks) s"

definition synchronize_cache :: "chunk_name list option \<Rightarrow> engine \<Rightarrow> unit result" where
  "synchronize_cache chunk_keys =
     bind_eng (case chunk_keys of
                 None \<Rightarrow> bind_eng last_chunk_key (\<lambda>k. ok [k])
               | Some ks \<Rightarrow> ok ks)
       (\<lambda>ks. bind_eng (get_chunks ks)
         (\<lambda>_. bind_eng chunk_id_encoder (\<lambda>_. ok ())))"

definition register_one_sample :: "engine \<Rightarrow> unit result" where
  "register_one_sample =
     bind_eng chunk_id_encoder (\<lambda>enc s.
       case register_samples enc 1 of
         Inl e \<Rightarrow> raise e s
       | Inr enc' \<Rightarrow> ok () (s\<lparr>chunk_id_encoder_blob := Some enc'\<rparr>))"

definition append_bytes :: "buffer \<Rightarrow> shape \<Rightarrow> engine \<Rightarrow> unit result" where
  "append_bytes buf shp =
     bind_eng (try_appending_to_last_chunk buf shp) (\<lambda>buffer_consumed.
       bind_eng (if \<not> buffer_consumed then append_to_new_chunk buf shp else ok ())
         (\<lambda>_. bind_eng register_one_sample (\<lambda>_. synchronize_cache None)))"

text \<open>
  \<open>extend\<close>: \<open>ffw_chunk_id_encoder\<close> (\<^verbatim>\<open>hub/core/fast_forwarding.py\<close>) brings the version tag
  of the encoder up to date; the model has no version tag, so only the access to the
  encoder remains. \<open>maybe_flush\<close> writes the cache to storage and changes nothing here.
\<close>

fun extend_loop :: "(buffer \<times> shape) list \<Rightarrow> engine \<Rightarrow> unit result" where
  "extend_loop [] s = ok () s"
| "extend_loop ((buf, shp) # rest) s =
     (case update_shape_interval (tensor_meta s) shp of
        Inl e \<Rightarrow> raise e s
      | Inr tm \<Rightarrow>
          bind_eng (append_bytes buf shp) (\<lambda>_. extend_loop rest)
            (s\<lparr>tensor_meta := tm\<lparr>meta_length := meta_length tm + 1\<rparr>\<rparr>))"

definition extend :: "'a codec \<Rightarrow> 'a pyval \<Rightarrow> engine \<Rightarrow> unit result" where
  "extend cd samples =
     bind_eng check_readonly (\<lambda>_.
       bind_eng chunk_id_encoder (\<lambda>_ s.
         let s1 = (if dtype (tensor_meta s) = None
                   then s\<lparr>tensor_meta := set_dtype (tensor_meta s) (get_dtype cd samples)\<rparr>
                   else s)
         in bind_eng
              (lift (serialize_input_samples cd samples (tensor_meta s1) (min_chunk_size s1)))
              extend_loop s1))"

definition append_engine :: "'a codec \<Rightarrow> 'a pyval \<Rightarrow> engine \<Rightarrow> unit result" where
  "append_engine cd sample = extend cd (PyList [sample])"

section \<open>Updating\<close>

text \<open>
  \<open>_make_sequence\<close> asks the incoming value for \<open>__len__\<close>: a list has one, an array has one
  (\<open>len\<close> of a 0-dimensional array raises \<open>TypeError\<close>), a scalar has none. A scalar has no
  \<open>__len__\<close> whether or not it has a \<open>shape\<close>, and both branches of the source then wrap
  it in a list.
\<close>

fun py_len :: "'a pyval \<Rightarrow> (error + int) option" where
  "py_len (Scalar x) = None"
| "py_len (Array a) = Some (case arr_shape a of [] \<Rightarrow> Inl TypeError | n # _ \<Rightarrow> Inr (int n))"
| "py_len (PyList xs) = Some (Inr (int (length xs)))"

definition make_sequence :: "'a pyval \<Rightarrow> int \<Rightarrow> error + 'a pyval" where
  "make_sequence samples index_length' =
     (case (if index_length' = 1 then
              (case py_len samples of
                 Some (Inl e) \<Rightarrow> Inl e
               | Some (Inr n) \<Rightarrow> Inr (if n \<noteq> 1 then PyList [samples] else samples)
               | None \<Rightarrow> Inr (PyList [samples]))
            else Inr samples) of
        Inl e \<Rightarrow> Inl e
      | Inr samples1 \<Rightarrow>
          (case py_len samples1 of
             Some (Inl e) \<Rightarrow> Inl e
           | Some (Inr n) \<Rightarrow> if index_length' \<noteq> n then Inl ValueError else Inr samples1
           | None \<Rightarrow> Inr (PyList [samples1])))"

text \<open>
  \<open>_warn_if_suboptimal_chunks\<close> compares integers with the floats
  \<open>max_chunk_size * (1 + 0.2)\<close> and \<open>min_chunk_size * (1 - 0.2)\<close>. The thresholds are modelled
  on the reals; for chunk sizes below \<open>2 ^ 52\<close> the rounded products order every integer
  as the exact ones do. The result is the list of warnings emitted.
\<close>

datatype warning = SuboptimalChunks

definition CHUNK_UPDATE_WARN_PORTION :: real where
  "CHUNK_UPDATE_WARN_PORTION = 0.2"

fun warn_loop :: "real \<Rightarrow> real \<Rightarrow> int list \<Rightarrow> warning list" where
  "warn_loop upper_warn_threshold lower_warn_threshold [] = []"
| "warn_loop upper_warn_threshold lower_warn_threshold (n # rest) =
     (if real_of_int n > upper_warn_threshold \<or> real_of_int n < lower_warn_threshold
      then [SuboptimalChunks]
      else warn_loop upper_warn_threshold lower_warn_threshold rest)"

definition warn_if_suboptimal_chunks :: "int list \<Rightarrow> int \<Rightarrow> int \<Rightarrow> warning list" where
  "warn_if_suboptimal_chunks chunks_nbytes_after_updates min_size max_size =
     (let upper_warn_threshold = real_of_int max_size * (1 + CHUNK_UPDATE_WARN_PORTION);
          lower_warn_threshold = real_of_int min_size * (1 - CHUNK_UPDATE_WARN_PORTION)
      in warn_loop upper_warn_threshold lower_warn_threshold chunks_nbytes_after_updates)"

text \<open>
  \<open>get_chunk_for_sample\<close> attaches the chunk key to the chunk object it returns; the model
  returns the key beside the chunk.
\<close>

definition get_chunk_for_sample :: "int \<Rightarrow> chunk_id_encoder \<Rightarrow> engine \<Rightarrow> (chunk_name \<times> chunk) result" where
  "get_chunk_for_sample global_sample_index enc s =
     (case enc_getitem enc global_sample_index of
        Inl e \<Rightarrow> raise e s
      | Inr chunk_id \<Rightarrow>
          bind_eng (get_chunk (name_from_id chunk_id))
            (\<lambda>c. ok (name_from_id chunk_id, c)) s)"

text \<open>
  The body of the \<open>for\<close> loop of \<open>_update_sample\<close> is \<open>update_one\<close>; \<open>update_loop\<close> runs it for
  the serialized samples in order, counting \<open>i\<close> as \<open>enumerate\<close> does. The chunk is changed
  in place in the source; the model stores the changed chunk under its key at once.
\<close>

definition update_one ::
  "'a codec \<Rightarrow> buffer \<times> shape \<Rightarrow> nat \<Rightarrow> int list \<Rightarrow> chunk_id_encoder \<Rightarrow> int list \<Rightarrow> engine \<Rightarrow> int list result"
where
  "update_one cd smp i global_sample_indices enc chunks_nbytes_after_updates s =
     (case smp of (buf, shp) \<Rightarrow>
      (case py_index global_sample_indices (int i) of
        Inl e \<Rightarrow> raise e s
      | Inr global_sample_index \<Rightarrow>
          bind_eng (get_chunk_for_sample global_sample_index enc) (\<lambda>(key, c) s1.
            case translate_index_relative_to_chunks enc global_sample_index of
              Inl e \<Rightarrow> raise e s1
            | Inr local_sample_index \<Rightarrow>
                (case update_shape_interval (tensor_meta s1) shp of
                   Inl e \<Rightarrow> raise e s1
                 | Inr tm \<Rightarrow>
                     (case update_sample c local_sample_index buf shp of
                        Inl e \<Rightarrow> raise e (s1\<lparr>tensor_meta := tm\<rparr>)
                      | Inr c' \<Rightarrow>
                          bind_eng (put_chunk key c') (\<lambda>_.
                            bind_eng last_chunk_key (\<lambda>lk.
                              ok (if key \<noteq> lk then chunks_nbytes_after_updates @
                                            [nbytes (chunk_header_nbytes cd) c']
                                  else chunks_nbytes_after_updates)))
                            (s1\<lparr>tensor_meta := tm\<rparr>)))) s))"

fun update_loop ::
  "'a codec \<Rightarrow> (buffer \<times> shape) list \<Rightarrow> nat \<Rightarrow> int list \<Rightarrow> chunk_id_encoder \<Rightarrow> int list \<Rightarrow> engine \<Rightarrow> int list result"
where
  "update_loop cd [] i global_sample_indices enc chunks_nbytes_after_updates s =
     ok chunks_nbytes_after_updates s"
| "update_loop cd (smp # rest) i global_sample_indices enc chunks_nbytes_after_updates s =
     bind_eng (update_one cd smp i global_sample_indices enc chunks_nbytes_after_updates)
       (\<lambda>nbytes_list. update_loop cd rest (Suc i) global_sample_indices enc nbytes_list) s"

definition engine_update_sample :: "'a codec \<Rightarrow> index \<Rightarrow> 'a pyval \<Rightarrow> engine \<Rightarrow> warning list result" where
  "engine_update_sample cd idx samples =
     bind_eng chunk_id_encoder (\<lambda>enc s.
       case make_sequence samples (index_length idx (num_samples s)) of
         Inl e \<Rightarrow> raise e s
       | Inr samples1 \<Rightarrow>
           bind_eng
             (lift (serialize_input_samples cd samples1 (tensor_meta s) (min_chunk_size s)))
             (\<lambda>serialized_input_samples s1.
                bind_eng
                  (update_loop cd serialized_input_samples 0 (indices idx (num_samples s1)) enc [])
                  (\<lambda>chunks_nbytes_after_updates.
                     bind_eng (synchronize_cache (Some []))
                       (\<lambda>_ s2. ok (warn_if_suboptimal_chunks chunks_nbytes_after_updates
                                      (min_chunk_size s2) (max_chunk_size s2)) s2)) s1) s)"

definition update_sample_subslice :: "'a pyval \<Rightarrow> engine \<Rightarrow> warning list result" where
  "update_sample_subslice samples s =
     (case samples of
        Array a \<Rightarrow> raise NotImplementedError s
      | _ \<Rightarrow> raise UpdateSampleError s)"

definition update :: "'a codec \<Rightarrow> index \<Rightarrow> 'a pyval \<Rightarrow> engine \<Rightarrow> warning list result" where
  "update cd idx samples =
     bind_eng check_readonly (\<lambda>_.
       bind_eng chunk_id_encoder (\<lambda>_.
         if is_single_dim_effective idx then engine_update_sample cd idx samples
         else update_sample_subslice samples))"

section \<open>Reading\<close>

definition read_sample_from_chunk :: "'a codec \<Rightarrow> int \<Rightarrow> chunk \<Rightarrow> bool \<Rightarrow> engine \<Rightarrow> ndarray result" where
  "read_sample_from_chunk cd global_sample_index c cast s =
     (let expect_compressed = (sample_compression (tensor_meta s) \<noteq> None);
          dt = dtype (tensor_meta s)
      in bind_eng chunk_id_encoder (\<lambda>enc s1.
           case translate_index_relative_to_chunks enc global_sample_index of
             Inl e \<Rightarrow> raise e s1
           | Inr local_sample_index \<Rightarrow>
               (case local_lookup (shapes_encoder c) local_sample_index of
                  Inl e \<Rightarrow> raise e s1
                | Inr shp \<Rightarrow>
                    (case local_lookup (byte_positions_encoder c) local_sample_index of
                       Inl e \<Rightarrow> raise e s1
                     | Inr (sb, eb) \<Rightarrow>
                         (let buf = py_slice (data c) sb eb in
                          if length buf = 0 then ok (np_zeros shp dt) s1
                          else if expect_compressed then
                            (case decompress_array cd buf shp of
                               Inl e \<Rightarrow> raise e s1
                             | Inr sample \<Rightarrow>
                                 ok (if cast \<and> Some (arr_dtype sample) \<noteq> dtype (tensor_meta s1)
                                     then astype cd sample (dtype (tensor_meta s1))
                                     else sample) s1)
                          else
                            (case np_frombuffer buf dt of
                               Inl e \<Rightarrow> raise e s1
                             | Inr a \<Rightarrow> lift (reshape a shp) s1))))) s)"

fun numpy_loop ::
  "'a codec \<Rightarrow> bool \<Rightarrow> chunk_id_encoder \<Rightarrow> int list \<Rightarrow> shape option \<Rightarrow> ndarray list \<Rightarrow> engine \<Rightarrow> ndarray list result"
where
  "numpy_loop cd aslist enc [] last_shape samples s = ok samples s"
| "numpy_loop cd aslist enc (g # gs) last_shape samples s =
     bind_eng (get_chunk_for_sample g enc) (\<lambda>(key, c).
       bind_eng (read_sample_from_chunk cd g c True) (\<lambda>sample s1.
         if \<not> aslist \<and> last_shape \<noteq> None \<and> Some (arr_shape sample) \<noteq> last_shape
         then raise DynamicShape s1
         else numpy_loop cd aslist enc gs (Some (arr_shape sample)) (samples @ [sample]) s1)) s"

text \<open>
  \<open>_format_read_samples\<close> hands the samples to the index (\<open>apply\<close>, then \<open>apply_squeeze\<close>,
  which keeps the list for a subscriptable first entry and takes its first element
  otherwise) and, unless a list is asked for, to \<open>np.array\<close>, which stacks arrays of one
  shape. With \<open>aslist\<close>, scalar items become Python scalars of the same value.
\<close>

datatype read_result = SampleList "ndarray list" | SingleSample ndarray | DenseArray ndarray

definition np_array :: "ndarray list \<Rightarrow> error + ndarray" where
  "np_array xs =
     (case xs of
        [] \<Rightarrow> Inr \<lparr>arr_shape = [0], arr_dtype = float64, arr_bytes = []\<rparr>
      | x # rest \<Rightarrow>
          if list_all (\<lambda>y. arr_shape y = arr_shape x) rest
          then Inr \<lparr>arr_shape = length xs # arr_shape x, arr_dtype = arr_dtype x,
                    arr_bytes = concat (map arr_bytes xs)\<rparr>
          else Inl ValueError)"

definition format_read_samples :: "ndarray list \<Rightarrow> index \<Rightarrow> bool \<Rightarrow> error + read_result" where
  "format_read_samples samples idx aslist =
     (let samples1 = index_apply idx samples in
      if subscriptable idx then
        (if aslist then Inr (SampleList samples1)
         else (case np_array samples1 of Inl e \<Rightarrow> Inl e | Inr a \<Rightarrow> Inr (DenseArray a)))
      else
        (case samples1 of
           [] \<Rightarrow> Inl IndexError
         | x # _ \<Rightarrow> if aslist then Inr (SingleSample x) else Inr (DenseArray x)))"

definition numpy :: "'a codec \<Rightarrow> index \<Rightarrow> bool \<Rightarrow> engine \<Rightarrow> read_result result" where
  "numpy cd idx aslist s =
     (let length' = num_samples s in
      bind_eng chunk_id_encoder (\<lambda>enc.
        bind_eng (numpy_loop cd aslist enc (indices idx length') None [])
          (\<lambda>samples. lift (format_read_samples samples idx aslist))) s)"

function get_chunk_names_loop ::
  "chunk_name set \<Rightarrow> int \<Rightarrow> int \<Rightarrow> int \<Rightarrow> engine \<Rightarrow> chunk_name set result"
where
  "get_chunk_names_loop chunk_names sample_index last_index target_chunk_count s =
     (if int (card chunk_names) < target_chunk_count \<and> sample_index < last_index then
        bind_eng chunk_id_encoder (\<lambda>enc s1.
          case enc_getitem enc sample_index of
            Inl e \<Rightarrow> raise e s1
          | Inr chunk_id \<Rightarrow>
              get_chunk_names_loop (insert (name_from_id chunk_id) chunk_names)
                (sample_index + 1) last_index target_chunk_count s1) s
      else ok chunk_names s)"
  by pat_completeness auto
termination
  by (relation "measure (\<lambda>(chunk_names, sample_index, last_index, target_chunk_count, s).
        nat (last_index - sample_index))") auto

definition get_chunk_names :: "int \<Rightarrow> int \<Rightarrow> int \<Rightarrow> engine \<Rightarrow> chunk_name set result" where
  "get_chunk_names sample_index last_index target_chunk_count =
     get_chunk_names_loop {} sample_index last_index target_chunk_count"

definition validate_num_samples_is_synchronized :: "engine \<Rightarrow> unit result" where
  "validate_num_samples_is_synchronized s =
     (let tensor_meta_length = meta_length (tensor_meta s) in
      bind_eng
        (if chunk_id_encoder_exists s
         then bind_eng chunk_id_encoder (\<lambda>enc. ok (enc_num_samples enc))
         else ok 0)
        (\<lambda>chunk_id_num_samples.
           if tensor_meta_length \<noteq> chunk_id_num_samples then raise Corrupted else ok ()) s)"

section \<open>The placement rule in the spec's words, and fixtures\<close>

definition placement_rule_merges :: "chunk option \<Rightarrow> int \<Rightarrow> int \<Rightarrow> int \<Rightarrow> bool" where
  "placement_rule_merges L min_size max_size b \<longleftrightarrow>
     (case L of
        None \<Rightarrow> False
      | Some c \<Rightarrow>
          num_data_bytes c < min_size \<and>
          \<lceil>real_of_int b / real_of_int max_size\<rceil> =
            \<lceil>real_of_int (b + num_data_bytes c) / real_of_int max_size\<rceil>)"

definition sample_chunk :: "buffer \<Rightarrow> shape \<Rightarrow> chunk" where
  "sample_chunk buf shp =
     \<lparr>data = buf, shapes_encoder = [shp], byte_positions_encoder = [(0, int (length buf))]\<rparr>"

definition merged_chunk :: "chunk \<Rightarrow> buffer \<Rightarrow> shape \<Rightarrow> chunk" where
  "merged_chunk c buf shp =
     \<lparr>data = data c @ buf, shapes_encoder = shapes_encoder c @ [shp],
      byte_positions_encoder = byte_positions_encoder c @
        [(num_data_bytes c, num_data_bytes c + int (length buf))]\<rparr>"

definition uint8 :: np_dtype where
  "uint8 = \<lparr>dtype_name = ''uint8'', itemsize = 1\<rparr>"

definition new_tensor :: "int option \<Rightarrow> engine" where
  "new_tensor m =
     \<lparr>cache_readonly = False,
      tensor_meta = \<lparr>dtype = None, min_shape = [], max_shape = [], meta_length = 0,
                      meta_max_chunk_size = m, sample_compression = None\<rparr>,
      chunk_id_encoder_blob = None,
      chunks = Map.empty,
      random_ids = word_of_nat,
      ids_drawn = 0\<rparr>"

definition opened_tensor :: "int option \<Rightarrow> engine" where
  "opened_tensor m = (new_tensor m)\<lparr>chunk_id_encoder_blob := Some blank_encoder\<rparr>"

definition one_chunk_tensor :: engine where
  "one_chunk_tensor =
     \<lparr>cache_readonly = False,
      tensor_meta = \<lparr>dtype = Some uint8, min_shape = [3], max_shape = [3], meta_length = 1,
                      meta_max_chunk_size = Some 8, sample_compression = None\<rparr>,
      chunk_id_encoder_blob = Some \<lparr>rows = [(0, 0)], latest_id = None\<rparr>,
      chunks = [name_from_id 0 \<mapsto> sample_chunk [1, 2, 3] [3]],
      random_ids = word_of_nat,
      ids_drawn = 1\<rparr>"

fun raw_samples :: "(buffer \<times> shape) pyval \<Rightarrow> (buffer \<times> shape) list" where
  "raw_samples (Scalar p) = [p]"
| "raw_samples (Array a) = [(arr_bytes a, arr_shape a)]"
| "raw_samples (PyList xs) = concat (map raw_samples xs)"

definition raw_codec :: "(buffer \<times> shape) codec" where
  "raw_codec =
     \<lparr>serialize_input_samples = (\<lambda>v tm m. Inr (raw_samples v)),
      get_dtype = (\<lambda>v. uint8),
      decompress_array = (\<lambda>buf shp. Inl ValueError),
      astype = (\<lambda>a d. a\<lparr>arr_dtype := np_dtype_of d\<rparr>),
      chunk_header_nbytes = (\<lambda>shps poss. 64)\<rparr>"

definition index_list :: "int list \<Rightarrow> index" where
  "index_list gs =
     \<lparr>indices = (\<lambda>n. gs), index_length = (\<lambda>n. int (length gs)),
      is_single_dim_effective = True, subscriptable = True, index_apply = (\<lambda>xs. xs)\<rparr>"

definition index_int :: "int \<Rightarrow> index" where
  "index_int g =
     \<lparr>indices = (\<lambda>n. [g]), index_length = (\<lambda>n. 1),
      is_single_dim_effective = True, subscriptable = False, index_apply = (\<lambda>xs. xs)\<rparr>"

definition zeros :: "nat \<Rightarrow> buffer" where
  "zeros n = replicate n 0"

definition blob_sample :: "int \<Rightarrow> (buffer \<times> shape) pyval" where
  "blob_sample mib = Scalar (zeros (nat (mib * MiB)), [nat (mib * MiB)])"

definition S1_first :: engine where
  "S1_first =
     snd (extend raw_codec (PyList (map blob_sample [1, 1, 14, 15, 15]))
            (new_tensor (Some (32 * MiB))))"

definition S1_second :: engine where
  "S1_second = snd (extend raw_codec (PyList (map blob_sample [15, 1])) S1_first)"

definition S3_tensor :: engine where
  "S3_tensor = snd (extend raw_codec (PyList [Scalar ([], [0, 5])]) (new_tensor None))"

text \<open>
  The body of the loop of \<open>numpy\<close>, named so that theorems can speak of the array read at
  one global index: fetch the chunk of the sample, then read the sample from it.
\<close>

definition read_sample :: "'a codec \<Rightarrow> chunk_id_encoder \<Rightarrow> int \<Rightarrow> engine \<Rightarrow> ndarray result" where
  "read_sample cd enc g =
     bind_eng (get_chunk_for_sample g enc) (\<lambda>(key, c). read_sample_from_chunk cd g c True)"

text \<open>
  The shape check of the loop of \<open>numpy\<close> on its own: every shape is compared with the one
  before it, and the first shape with nothing.
\<close>

fun shapes_agree :: "shape option \<Rightarrow> shape list \<Rightarrow> bool" where
  "shapes_agree last_shape [] = True"
| "shapes_agree last_shape (shp # rest) =
     ((last_shape = None \<or> last_shape = Some shp) \<and> shapes_agree (Some shp) rest)"

definition S2_tensor :: engine where
  "S2_tensor =
     snd (extend raw_codec (PyList [Scalar (zeros 100, [10, 10]), Scalar (zeros 150, [10, 15])])
            (new_tensor None))"

text \<open>
  The name of the chunk that holds global index \<open>g\<close>, for stating what \<open>get_chunk_names\<close>
  returns (the empty name where the encoder has no chunk for \<open>g\<close>).
\<close>

definition chunk_name_at :: "chunk_id_encoder \<Rightarrow> int \<Rightarrow> chunk_name" where
  "chunk_name_at enc g =
     (case enc_getitem enc g of Inl e \<Rightarrow> [] | Inr chunk_id \<Rightarrow> name_from_id chunk_id)"

definition two_chunk_tensor :: engine where
  "two_chunk_tensor =
     snd (extend raw_codec
            (PyList [Scalar ([1], [1]), Scalar ([2], [1]), Scalar ([3, 4], [2]),
                     Scalar ([5, 6, 7], [3]), Scalar ([8, 9, 10], [3])])
            (new_tensor (Some 8)))"

definition two_chunk_encoder :: chunk_id_encoder where
  "two_chunk_encoder = \<lparr>rows = [(0, 2), (1, 4)], latest_id = None\<rparr>"

section \<open>What a tensor holds: the layout behind an engine state\<close>

text \<open>
  For the round trip of reads, an engine state is compared with the plain list of chunks
  it stands for: each chunk with its id and the samples, buffer and shape, appended to it.
  \<open>chunk_of\<close> is the chunk that appending these samples one by one builds, \<open>rows_from\<close>
  the encoder table of such a list, and \<open>represents\<close> says that a state stores exactly
  this. The chunks are pinned down only when no two chunks drew the same random id: with
  a repeated id the later chunk overwrites the earlier one in the cache.
\<close>

type_synonym layout = "(chunk_id \<times> (buffer \<times> shape) list) list"

fun byte_ranges :: "int \<Rightarrow> buffer list \<Rightarrow> (int \<times> int) list" where
  "byte_ranges off [] = []"
| "byte_ranges off (b # bs) =
     (off, off + int (length b)) # byte_ranges (off + int (length b)) bs"

definition chunk_of :: "(buffer \<times> shape) list \<Rightarrow> chunk" where
  "chunk_of smps =
     \<lparr>data = concat (map fst smps), shapes_encoder = map snd smps,
      byte_positions_encoder = byte_ranges 0 (map fst smps)\<rparr>"

fun rows_from :: "int \<Rightarrow> layout \<Rightarrow> (chunk_id \<times> int) list" where
  "rows_from n [] = []"
| "rows_from n ((i, smps) # rest) =
     (i, n + int (length smps) - 1) # rows_from (n + int (length smps)) rest"


definition represents :: "layout \<Rightarrow> engine \<Rightarrow> bool" where
  "represents lay s \<longleftrightarrow>
     (\<exists>enc. chunk_id_encoder_blob s = Some enc \<and> latest_id enc = None \<and>
            rows enc = rows_from 0 lay) \<and>
     (\<forall>c \<in> set lay. snd c \<noteq> []) \<and>
     (distinct (map fst lay) \<longrightarrow>
        (\<forall>c \<in> set lay. chunks s (name_from_id (fst c)) = Some (chunk_of (snd c))))"




text \<open>
  Outside the interval \<open>[min_chunk_size * (1 - 0.2), max_chunk_size * (1 + 0.2)]\<close>, as
  \<open>_warn_if_suboptimal_chunks\<close> tests it.
\<close>

definition suboptimal :: "int \<Rightarrow> int \<Rightarrow> int \<Rightarrow> bool" where
  "suboptimal min_size max_size n \<longleftrightarrow>
     real_of_int n > real_of_int max_size * (1 + CHUNK_UPDATE_WARN_PORTION) \<or>
     real_of_int n < real_of_int min_size * (1 - CHUNK_UPDATE_WARN_PORTION)"

text \<open>What decides how a stored buffer is decoded, and the size bounds, stay as they are.\<close>

definition same_decoding :: "engine \<Rightarrow> engine \<Rightarrow> bool" where
  "same_decoding s s' \<longleftrightarrow>
     meta_max_chunk_size (tensor_meta s') = meta_max_chunk_size (tensor_meta s) \<and>
     dtype (tensor_meta s') = dtype (tensor_meta s) \<and>
     sample_compression (tensor_meta s') = sample_compression (tensor_meta s)"


text \<open>
  The engine states right after each rewrite of an update batch, in order: after the
  first sample is rewritten, after the second, and so on.
\<close>

fun rewrite_states ::
  "'a codec \<Rightarrow> (buffer \<times> shape) list \<Rightarrow> nat \<Rightarrow> int list \<Rightarrow> chunk_id_encoder \<Rightarrow> engine \<Rightarrow> engine list"
where
  "rewrite_states cd [] i gs enc s = []"
| "rewrite_states cd (smp # rest) i gs enc s =
     snd (update_one cd smp i gs enc [] s) #
       rewrite_states cd rest (Suc i) gs enc (snd (update_one cd smp i gs enc [] s))"

text \<open>
  A tensor with \<open>max_chunk_size = 1000\<close> and \<open>min_chunk_size = 500\<close>: the first chunk holds
  three samples of 10, 480 and 490 bytes, the tail chunk one sample of 300 bytes. The
  batch of the update rewrites sample 0 with 490 bytes and samples 1 and 2 with 10 bytes
  each. Every buffer is shorter than \<open>min_chunk_size\<close>.
\<close>

definition zero_sample :: "nat \<Rightarrow> (buffer \<times> shape) pyval" where
  "zero_sample n = Scalar (zeros n, [n])"

definition kilo_tensor :: engine where
  "kilo_tensor =
     snd (extend raw_codec (PyList (map zero_sample [10, 480, 490, 300]))
            (new_tensor (Some 1000)))"

definition kilo_encoder :: chunk_id_encoder where
  "kilo_encoder = \<lparr>rows = [(0, 2), (1, 3)], latest_id = None\<rparr>"

definition kilo_update_batch :: "(buffer \<times> shape) pyval" where
  "kilo_update_batch = PyList [zero_sample 490, zero_sample 10, zero_sample 10]"



lemma max_chunk_size_nonzero: "max_chunk_size s \<noteq> 0"
  by (simp add: max_chunk_size_def DEFAULT_MAX_CHUNK_SIZE_def MiB_def split: option.splits)

lemma ceiling_div_le_one: "0 < m \<Longrightarrow> \<lceil>real_of_int a / real_of_int m\<rceil> \<le> 1 \<longleftrightarrow> a \<le> m"
  by (simp add: ceiling_le_iff field_simps)

lemma ceiling_div_pos: "0 < m \<Longrightarrow> 0 < a \<Longrightarrow> 0 < \<lceil>real_of_int a / real_of_int m\<rceil>"
  by (simp add: field_simps)

lemma ceiling_div_le_zero: "0 < m \<Longrightarrow> \<lceil>real_of_int a / real_of_int m\<rceil> \<le> 0 \<longleftrightarrow> a \<le> 0"
  by (simp add: field_simps)

lemma merge_fits:
  assumes under: "sz < m div 2" and sz: "0 \<le> sz" and b: "0 \<le> b" "b \<le> m"
    and ct: "min_chunk_ct_for_data_size m b = min_chunk_ct_for_data_size m (b + sz)"
  shows "b + sz \<le> m"
proof -
  from under sz have m: "0 < m" by linarith
  show ?thesis
  proof (cases "b = 0")
    case True
    with ct have "\<lceil>real_of_int sz / real_of_int m\<rceil> = 0"
      by (simp add: min_chunk_ct_for_data_size_def)
    then have "sz \<le> 0" using ceiling_div_le_zero [OF m, of sz] by simp
    with True m show ?thesis by simp
  next
    case False
    with b have "0 < b" by simp
    have "\<lceil>real_of_int b / real_of_int m\<rceil> \<le> 1"
      using ceiling_div_le_one [OF m, of b] b by simp
    with ct have "\<lceil>real_of_int (b + sz) / real_of_int m\<rceil> \<le> 1"
      by (simp add: min_chunk_ct_for_data_size_def)
    then show ?thesis using ceiling_div_le_one [OF m, of "b + sz"] by simp
  qed
qed

lemmas eng_simps = bind_eng_def ok_def raise_def lift_def

lemma py_slice_to_all: "int (length xs) \<le> e \<Longrightarrow> py_slice_to xs e = xs"
  by (simp add: py_slice_to_def py_bound_def)

lemma py_index_last: "xs \<noteq> [] \<Longrightarrow> py_index xs (- 1) = Inr (last xs)"
proof -
  assume ne: "xs \<noteq> []"
  then have pos: "Suc 0 \<le> length xs" by (cases xs) simp_all
  then have "nat (int (length xs) + - 1) = length xs - 1" by linarith
  with ne pos show ?thesis by (simp add: py_index_def last_conv_nth)
qed

lemma get_name_last:
  "rows enc \<noteq> [] \<Longrightarrow> get_name_for_chunk enc (- 1) = Inr (name_from_id (fst (last (rows enc))))"
  by (simp add: get_name_for_chunk_def py_index_last)

lemma last_chunk_key_blob:
  "chunk_id_encoder_blob s = Some enc \<Longrightarrow>
   last_chunk_key s = lift (get_name_for_chunk enc (- 1)) s"
  by (simp add: last_chunk_key_def chunk_id_encoder_def eng_simps)

lemma last_chunk_state: "snd (last_chunk s) = s"
  by (cases "chunk_id_encoder_blob s")
     (auto simp: last_chunk_def num_chunks_def last_chunk_key_blob get_chunk_def eng_simps
           split: sum.splits option.splits)

lemma last_chunk_Some:
  assumes "last_chunk s = (Inr (Some c), s')"
  shows "\<exists>enc k. chunk_id_encoder_blob s = Some enc \<and> rows enc \<noteq> [] \<and>
           k = name_from_id (fst (last (rows enc))) \<and>
           last_chunk_key s = (Inr k, s) \<and> chunks s k = Some c \<and> s' = s"
proof (cases "chunk_id_encoder_blob s")
  case None
  with assms show ?thesis by (simp add: last_chunk_def num_chunks_def eng_simps)
next
  case (Some enc)
  with assms have ne: "rows enc \<noteq> []"
    by (auto simp: last_chunk_def num_chunks_def enc_num_chunks_def eng_simps)
  then have nm: "get_name_for_chunk enc (- 1) = Inr (name_from_id (fst (last (rows enc))))"
    by (rule get_name_last)
  from assms Some ne nm show ?thesis
    by (auto simp: last_chunk_def num_chunks_def enc_num_chunks_def last_chunk_key_blob
          get_chunk_def eng_simps split: option.splits)
qed

lemma min_chunk_ct_div: "min_chunk_ct_for_data_size m sz = - (- sz div m)"
  unfolding min_chunk_ct_for_data_size_def by (rule ceiling_divide_eq_div)

lemma placement_rule_merges_div:
  "placement_rule_merges (Some c) mn mx b \<longleftrightarrow>
     num_data_bytes c < mn \<and> - (- b div mx) = - (- (b + num_data_bytes c) div mx)"
  by (simp only: placement_rule_merges_def ceiling_divide_eq_div option.case)

lemma append_sample_fits:
  "num_data_bytes c + int (length buf) \<le> m \<Longrightarrow>
   append_sample c buf m shp =
     Inr \<lparr>data = data c @ buf, shapes_encoder = shapes_encoder c @ [shp],
          byte_positions_encoder = byte_positions_encoder c @
            [(num_data_bytes c, num_data_bytes c + int (length buf))]\<rparr>"
  by (simp add: append_sample_def)

lemma length_py_slice_to_min:
  "0 \<le> m \<Longrightarrow> int (length (py_slice_to buf (min (int (length buf)) m))) = min (int (length buf)) m"
  by (auto simp: py_slice_to_def py_bound_def min_def)

lemma try_appending_None:
  "last_chunk s = (Inr None, s') \<Longrightarrow> try_appending_to_last_chunk buf shp s = (Inr False, s')"
  by (simp add: try_appending_to_last_chunk_def eng_simps)

lemma try_appending_Some:
  assumes lc: "last_chunk s = (Inr (Some c), s')"
  shows "try_appending_to_last_chunk buf shp s =
     (if placement_rule_merges (Some c) (min_chunk_size s) (max_chunk_size s) (int (length buf))
      then (case append_sample c
                   (py_slice_to buf (min (int (length buf)) (max_chunk_size s - num_data_bytes c)))
                   (max_chunk_size s) shp of
              Inl e \<Rightarrow> (Inl e, s)
            | Inr c' \<Rightarrow>
               (Inr True, s\<lparr>chunks := (chunks s)(name_from_id (fst (last (rows (the (chunk_id_encoder_blob s))))) \<mapsto> c')\<rparr>))
      else (Inr False, s))"
proof -
  from last_chunk_Some [OF lc] obtain enc k where
    "chunk_id_encoder_blob s = Some enc" "k = name_from_id (fst (last (rows enc)))"
    "last_chunk_key s = (Inr k, s)" "s' = s" by blast
  with lc show ?thesis
    by (simp add: try_appending_to_last_chunk_def eng_simps placement_rule_merges_def
          is_under_min_space_def min_chunk_ct_for_data_size_def Let_def put_chunk_def
          add.commute split: sum.splits)
qed

lemma hex_digit_inj: "a < 16 \<Longrightarrow> b < 16 \<Longrightarrow> hex_digit a = hex_digit b \<Longrightarrow> a = b"
proof -
  have d: "distinct ''0123456789abcdef''" by simp
  have l: "length ''0123456789abcdef'' = 16" by simp
  show "a < 16 \<Longrightarrow> b < 16 \<Longrightarrow> hex_digit a = hex_digit b \<Longrightarrow> a = b"
    unfolding hex_digit_def using nth_eq_iff_index_eq [OF d, of a b] l by metis
qed

lemma to_hex_inj:
  "n < 16 ^ k \<Longrightarrow> m < 16 ^ k \<Longrightarrow> to_hex k n = to_hex k m \<Longrightarrow> n = m"
proof (induction k arbitrary: n m)
  case 0
  then show ?case by simp
next
  case (Suc k)
  from Suc.prems(3) have eq: "to_hex k (n div 16) = to_hex k (m div 16)"
    and dg: "hex_digit (n mod 16) = hex_digit (m mod 16)" by simp_all
  from Suc.prems(1,2) have "n div 16 < 16 ^ k" "m div 16 < 16 ^ k"
    by (simp_all add: less_mult_imp_div_less mult.commute)
  with eq have "n div 16 = m div 16" using Suc.IH [of "n div 16" "m div 16"] by blast
  moreover from dg have "n mod 16 = m mod 16" using hex_digit_inj [of "n mod 16" "m mod 16"] by simp
  ultimately show ?case by (metis div_mult_mod_eq)
qed

lemma name_from_id_eq_iff [simp]: "name_from_id a = name_from_id b \<longleftrightarrow> a = b"
proof
  assume eq: "name_from_id a = name_from_id b"
  have "unat a < 16 ^ 16" "unat b < 16 ^ 16"
    using unsigned_less [of a, where 'a = nat] unsigned_less [of b, where 'a = nat] by simp_all
  with eq have "unat a = unat b"
    unfolding name_from_id_def using to_hex_inj [of "unat a" 16 "unat b"] by blast
  then show "a = b" by (simp add: word_unat_eq_iff)
qed simp

lemma max_chunk_size_meta [simp]:
  "max_chunk_size (s\<lparr>chunks := c\<rparr>) = max_chunk_size s"
  "max_chunk_size (s\<lparr>chunk_id_encoder_blob := b\<rparr>) = max_chunk_size s"
  "max_chunk_size (s\<lparr>ids_drawn := n\<rparr>) = max_chunk_size s"
  by (simp_all add: max_chunk_size_def)

lemma chunk_id_encoder_blob_Some:
  "chunk_id_encoder_blob s = Some enc \<Longrightarrow> chunk_id_encoder s = (Inr enc, s)"
  by (simp add: chunk_id_encoder_def eng_simps)

lemma create_new_chunk_Some:
  "chunk_id_encoder_blob s = Some enc \<Longrightarrow>
   create_new_chunk s =
     (Inr (name_from_id (random_ids s (ids_drawn s)), new_Chunk),
      s\<lparr>chunk_id_encoder_blob := Some (enc\<lparr>latest_id := Some (random_ids s (ids_drawn s))\<rparr>),
        ids_drawn := Suc (ids_drawn s),
        chunks := (chunks s)(name_from_id (random_ids s (ids_drawn s)) \<mapsto> new_Chunk)\<rparr>)"
  by (simp add: create_new_chunk_def chunk_id_encoder_blob_Some generate_chunk_id_def Let_def
        eng_simps)

lemma append_to_new_chunk_Some:
  assumes blob: "chunk_id_encoder_blob s = Some enc"
    and le: "int (length buf) \<le> max_chunk_size s"
  shows "append_to_new_chunk buf shp s =
     (Inr (),
      s\<lparr>chunk_id_encoder_blob := Some (enc\<lparr>latest_id := Some (random_ids s (ids_drawn s))\<rparr>),
        ids_drawn := Suc (ids_drawn s),
        chunks := (chunks s)(name_from_id (random_ids s (ids_drawn s)) \<mapsto> sample_chunk buf shp)\<rparr>)"
  using le
  by (simp add: append_to_new_chunk_def create_new_chunk_Some [OF blob] append_sample_def
        new_Chunk_def num_data_bytes_def put_chunk_def sample_chunk_def eng_simps)

lemma register_one_sample_latest:
  "chunk_id_encoder_blob s = Some enc \<Longrightarrow> latest_id enc = Some i \<Longrightarrow>
   register_one_sample s =
     (Inr (), s\<lparr>chunk_id_encoder_blob :=
                  Some (enc\<lparr>rows := rows enc @ [(i, enc_num_samples enc)], latest_id := None\<rparr>)\<rparr>)"
  by (simp add: register_one_sample_def chunk_id_encoder_blob_Some register_samples_def eng_simps)


lemma synchronize_cache_None:
  "chunk_id_encoder_blob s = Some enc \<Longrightarrow> rows enc \<noteq> [] \<Longrightarrow>
   chunks s (name_from_id (fst (last (rows enc)))) = Some c \<Longrightarrow>
   synchronize_cache None s = (Inr (), s)"
  by (simp add: synchronize_cache_def last_chunk_key_def chunk_id_encoder_blob_Some
        get_name_last get_chunk_def eng_simps)

lemma append_bytes_new_chunk:
  assumes tr: "try_appending_to_last_chunk buf shp s = (Inr False, s)"
    and blob: "chunk_id_encoder_blob s = Some enc"
    and le: "int (length buf) \<le> max_chunk_size s"
  shows "append_bytes buf shp s =
     (Inr (),
      s\<lparr>chunk_id_encoder_blob :=
           Some (enc\<lparr>rows := rows enc @ [(random_ids s (ids_drawn s), enc_num_samples enc)],
                     latest_id := None\<rparr>),
        ids_drawn := Suc (ids_drawn s),
        chunks := (chunks s)(name_from_id (random_ids s (ids_drawn s)) \<mapsto> sample_chunk buf shp)\<rparr>)"
proof -
  let ?r = "random_ids s (ids_drawn s)"
  let ?s1 = "s\<lparr>chunk_id_encoder_blob := Some (enc\<lparr>latest_id := Some ?r\<rparr>),
        ids_drawn := Suc (ids_drawn s),
        chunks := (chunks s)(name_from_id ?r \<mapsto> sample_chunk buf shp)\<rparr>"
  let ?enc2 = "enc\<lparr>rows := rows enc @ [(?r, enc_num_samples enc)], latest_id := None\<rparr>"
  let ?s2 = "?s1\<lparr>chunk_id_encoder_blob := Some ?enc2\<rparr>"
  have a: "append_to_new_chunk buf shp s = (Inr (), ?s1)"
    by (rule append_to_new_chunk_Some [OF blob le])
  have r: "register_one_sample ?s1 = (Inr (), ?s2)"
    using register_one_sample_latest [of ?s1 "enc\<lparr>latest_id := Some ?r\<rparr>" ?r]
    by (simp add: enc_num_samples_def)
  have y: "synchronize_cache None ?s2 = (Inr (), ?s2)"
    by (rule synchronize_cache_None [of ?s2 ?enc2 "sample_chunk buf shp"]) simp_all
  show ?thesis
    unfolding append_bytes_def bind_eng_def [of "try_appending_to_last_chunk buf shp"] tr
    using a r y by (simp add: eng_simps)
qed

lemma under_min_lt_max:
  "num_data_bytes c < max_chunk_size s div 2 \<Longrightarrow> num_data_bytes c \<le> max_chunk_size s"
  by (simp add: num_data_bytes_def)

lemma try_appending_merge:
  assumes lc: "last_chunk s = (Inr (Some c), s)"
    and m: "placement_rule_merges (Some c) (min_chunk_size s) (max_chunk_size s) (int (length buf))"
  shows "\<exists>k. last_chunk_key s = (Inr k, s) \<and>
     try_appending_to_last_chunk buf shp s =
       (Inr True, s\<lparr>chunks := (chunks s)(k \<mapsto>
          merged_chunk c
            (py_slice_to buf (min (int (length buf)) (max_chunk_size s - num_data_bytes c))) shp)\<rparr>)"
proof -
  let ?e = "min (int (length buf)) (max_chunk_size s - num_data_bytes c)"
  from last_chunk_Some [OF lc] obtain enc k where
    b: "chunk_id_encoder_blob s = Some enc" and k: "k = name_from_id (fst (last (rows enc)))"
    and lk: "last_chunk_key s = (Inr k, s)" by blast
  from m have "num_data_bytes c \<le> max_chunk_size s"
    by (simp add: placement_rule_merges_def min_chunk_size_def under_min_lt_max)
  then have "num_data_bytes c + int (length (py_slice_to buf ?e)) \<le> max_chunk_size s"
    by (simp add: length_py_slice_to_min)
  then have "append_sample c (py_slice_to buf ?e) (max_chunk_size s) shp =
      Inr (merged_chunk c (py_slice_to buf ?e) shp)"
    by (simp add: append_sample_fits merged_chunk_def)
  with m b k lk show ?thesis by (simp add: try_appending_Some [OF lc])
qed

text \<open>
  Claim C3. An incoming buffer is merged into the last chunk exactly when the last chunk
  exists, holds fewer data bytes than \<open>min_chunk_size\<close> and the ceiling count of the buffer
  equals that of buffer plus chunk; the merge writes to the last chunk's key. In every
  other case, a buffer that the codec admits (at most \<open>max_chunk_size\<close> bytes) gets a new
  chunk that holds the full buffer.
\<close>

theorem append_placement_rule:
  assumes lc: "last_chunk s = (Inr L, s)"
  shows "fst (try_appending_to_last_chunk buf shp s) =
           Inr (placement_rule_merges L (min_chunk_size s) (max_chunk_size s) (int (length buf))) \<and>
         (if placement_rule_merges L (min_chunk_size s) (max_chunk_size s) (int (length buf))
          then \<exists>c k. L = Some c \<and> last_chunk_key s = (Inr k, s) \<and>
                 snd (try_appending_to_last_chunk buf shp s) =
                   s\<lparr>chunks := (chunks s)(k \<mapsto>
                       merged_chunk c
                         (py_slice_to buf
                            (min (int (length buf)) (max_chunk_size s - num_data_bytes c))) shp)\<rparr>
          else chunk_id_encoder_exists s \<and> int (length buf) \<le> max_chunk_size s \<longrightarrow>
               (\<exists>s'. append_bytes buf shp s = (Inr (), s') \<and>
                     num_chunks s' = num_chunks s + 1 \<and>
                     last_chunk s' = (Inr (Some (sample_chunk buf shp)), s')))"
proof (cases "placement_rule_merges L (min_chunk_size s) (max_chunk_size s) (int (length buf))")
  case True
  then obtain c where L: "L = Some c" by (cases L) (simp_all add: placement_rule_merges_def)
  from try_appending_merge [OF lc [unfolded L] True [unfolded L], of shp] True L
  show ?thesis by auto
next
  case False
  have tr: "try_appending_to_last_chunk buf shp s = (Inr False, s)"
  proof (cases L)
    case None
    with lc show ?thesis by (simp add: try_appending_None)
  next
    case (Some c)
    with lc False show ?thesis by (simp add: try_appending_Some)
  qed
  have "\<exists>s'. append_bytes buf shp s = (Inr (), s') \<and> num_chunks s' = num_chunks s + 1 \<and>
              last_chunk s' = (Inr (Some (sample_chunk buf shp)), s')"
    if ex: "chunk_id_encoder_exists s" and le: "int (length buf) \<le> max_chunk_size s"
  proof -
    from ex obtain enc where blob: "chunk_id_encoder_blob s = Some enc"
      by (auto simp: chunk_id_encoder_exists_def)
    show ?thesis
      unfolding append_bytes_new_chunk [OF tr blob le]
      using blob
      by (simp add: num_chunks_def enc_num_chunks_def last_chunk_def last_chunk_key_def
            chunk_id_encoder_def get_name_last get_chunk_def eng_simps)
  qed
  with False tr show ?thesis by simp
qed

lemma last_chunk_opened: "last_chunk (opened_tensor m) = (Inr None, opened_tensor m)"
  by (simp add: last_chunk_def num_chunks_def enc_num_chunks_def opened_tensor_def
        blank_encoder_def eng_simps)

lemma last_chunk_one_chunk:
  "last_chunk one_chunk_tensor = (Inr (Some (sample_chunk [1, 2, 3] [3])), one_chunk_tensor)"
  by (simp add: last_chunk_def num_chunks_def enc_num_chunks_def one_chunk_tensor_def
        last_chunk_key_def chunk_id_encoder_def get_name_last get_chunk_def eng_simps)

theorem append_placement_rule_witness:
  "last_chunk one_chunk_tensor = (Inr (Some (sample_chunk [1, 2, 3] [3])), one_chunk_tensor) \<and>
   fst (try_appending_to_last_chunk [4, 5] [2] one_chunk_tensor) = Inr True \<and>
   last_chunk (opened_tensor (Some 8)) = (Inr None, opened_tensor (Some 8)) \<and>
   fst (try_appending_to_last_chunk [1, 2, 3] [3] (opened_tensor (Some 8))) = Inr False \<and>
   chunk_id_encoder_exists (opened_tensor (Some 8)) \<and>
   int (length [1, 2, 3 :: byte]) \<le> max_chunk_size (opened_tensor (Some 8)) \<and>
   (\<exists>s'. append_bytes [1, 2, 3] [3] (opened_tensor (Some 8)) = (Inr (), s') \<and>
         num_chunks s' = num_chunks (opened_tensor (Some 8)) + 1 \<and>
         last_chunk s' = (Inr (Some (sample_chunk [1, 2, 3] [3])), s'))"
proof -
  have m1: "placement_rule_merges (Some (sample_chunk [1, 2, 3] [3]))
              (min_chunk_size one_chunk_tensor) (max_chunk_size one_chunk_tensor)
              (int (length [4, 5 :: byte]))"
    by (simp add: placement_rule_merges_div min_chunk_size_def max_chunk_size_def
          one_chunk_tensor_def sample_chunk_def num_data_bytes_def)
  have m2: "\<not> placement_rule_merges None (min_chunk_size (opened_tensor (Some 8)))
              (max_chunk_size (opened_tensor (Some 8))) (int (length [1, 2, 3 :: byte]))"
    by (simp add: placement_rule_merges_def)
  have e: "chunk_id_encoder_exists (opened_tensor (Some 8))"
    by (simp add: chunk_id_encoder_exists_def opened_tensor_def)
  have l: "int (length [1, 2, 3 :: byte]) \<le> max_chunk_size (opened_tensor (Some 8))"
    by (simp add: max_chunk_size_def opened_tensor_def new_tensor_def)
  show ?thesis
    using append_placement_rule [OF last_chunk_one_chunk, of "[4, 5]" "[2]"]
      append_placement_rule [OF last_chunk_opened [of "Some 8"], of "[1, 2, 3]" "[3]"]
      m1 m2 e l last_chunk_one_chunk last_chunk_opened [of "Some 8"]
    by simp
qed

text \<open>
  Claim C10. When \<open>_try_appending_to_last_chunk\<close> decides to merge (the last chunk exists,
  is under \<open>min_chunk_size\<close> and the two ceiling counts agree) and the buffer has at most
  \<open>max_chunk_size\<close> bytes, then \<open>min(b, max_chunk_size - s) = b\<close>, the call returns \<open>True\<close> and
  the chunk stored under the last chunk's key, which is the last chunk afterwards, is the
  old one followed by the entire buffer, registered with its shape and the byte range
  \<open>(s, s + b)\<close>. No byte is dropped.
\<close>

theorem merged_append_writes_whole_buffer:
  assumes lc: "last_chunk s = (Inr (Some c), s)"
    and under: "is_under_min_space c (min_chunk_size s)"
    and ct: "min_chunk_ct_for_data_size (max_chunk_size s) (int (length buf)) =
             min_chunk_ct_for_data_size (max_chunk_size s) (int (length buf) + num_data_bytes c)"
    and le: "int (length buf) \<le> max_chunk_size s"
  shows "min (int (length buf)) (max_chunk_size s - num_data_bytes c) = int (length buf) \<and>
         (\<exists>k. last_chunk_key s = (Inr k, s) \<and>
              try_appending_to_last_chunk buf shp s =
                (Inr True,
                 s\<lparr>chunks := (chunks s)(k \<mapsto>
                    \<lparr>data = data c @ buf, shapes_encoder = shapes_encoder c @ [shp],
                     byte_positions_encoder = byte_positions_encoder c @
                       [(num_data_bytes c, num_data_bytes c + int (length buf))]\<rparr>)\<rparr>) \<and>
              last_chunk (snd (try_appending_to_last_chunk buf shp s)) =
                (Inr (Some \<lparr>data = data c @ buf, shapes_encoder = shapes_encoder c @ [shp],
                     byte_positions_encoder = byte_positions_encoder c @
                       [(num_data_bytes c, num_data_bytes c + int (length buf))]\<rparr>),
                 snd (try_appending_to_last_chunk buf shp s)))"
proof -
  let ?c' = "\<lparr>data = data c @ buf, shapes_encoder = shapes_encoder c @ [shp],
              byte_positions_encoder = byte_positions_encoder c @
                [(num_data_bytes c, num_data_bytes c + int (length buf))]\<rparr>"
  from under have u: "num_data_bytes c < max_chunk_size s div 2"
    by (simp add: is_under_min_space_def min_chunk_size_def)
  have "0 \<le> num_data_bytes c" by (simp add: num_data_bytes_def)
  with u ct le have "int (length buf) + num_data_bytes c \<le> max_chunk_size s"
    using merge_fits [of "num_data_bytes c" "max_chunk_size s" "int (length buf)"] by simp
  then have whole: "min (int (length buf)) (max_chunk_size s - num_data_bytes c) = int (length buf)"
    by simp
  have m: "placement_rule_merges (Some c) (min_chunk_size s) (max_chunk_size s) (int (length buf))"
    using under ct
    by (simp add: placement_rule_merges_def is_under_min_space_def min_chunk_ct_for_data_size_def)
  from try_appending_merge [OF lc m, of shp] obtain k where
    lk: "last_chunk_key s = (Inr k, s)"
    and tr: "try_appending_to_last_chunk buf shp s = (Inr True, s\<lparr>chunks := (chunks s)(k \<mapsto> ?c')\<rparr>)"
    by (auto simp: whole py_slice_to_all merged_chunk_def)
  from last_chunk_Some [OF lc] lk obtain enc where
    blob: "chunk_id_encoder_blob s = Some enc" and ne: "rows enc \<noteq> []"
    and k: "k = name_from_id (fst (last (rows enc)))" by auto
  have "last_chunk (s\<lparr>chunks := (chunks s)(k \<mapsto> ?c')\<rparr>) =
        (Inr (Some ?c'), s\<lparr>chunks := (chunks s)(k \<mapsto> ?c')\<rparr>)"
    using blob ne k
    by (simp add: last_chunk_def num_chunks_def enc_num_chunks_def last_chunk_key_def
          chunk_id_encoder_def get_name_last get_chunk_def eng_simps)
  with whole lk tr show ?thesis by simp
qed

theorem merged_append_writes_whole_buffer_witness:
  "last_chunk one_chunk_tensor = (Inr (Some (sample_chunk [1, 2, 3] [3])), one_chunk_tensor) \<and>
   is_under_min_space (sample_chunk [1, 2, 3] [3]) (min_chunk_size one_chunk_tensor) \<and>
   min_chunk_ct_for_data_size (max_chunk_size one_chunk_tensor) (int (length [4, 5 :: byte])) =
     min_chunk_ct_for_data_size (max_chunk_size one_chunk_tensor)
       (int (length [4, 5 :: byte]) + num_data_bytes (sample_chunk [1, 2, 3] [3])) \<and>
   int (length [4, 5 :: byte]) \<le> max_chunk_size one_chunk_tensor \<and>
   min (int (length [4, 5 :: byte]))
     (max_chunk_size one_chunk_tensor - num_data_bytes (sample_chunk [1, 2, 3] [3])) = 2 \<and>
   try_appending_to_last_chunk [4, 5] [2] one_chunk_tensor =
     (Inr True,
      one_chunk_tensor\<lparr>chunks := (chunks one_chunk_tensor)(name_from_id 0 \<mapsto>
         \<lparr>data = [1, 2, 3, 4, 5], shapes_encoder = [[3], [2]],
          byte_positions_encoder = [(0, 3), (3, 5)]\<rparr>)\<rparr>)"
proof -
  have m: "max_chunk_size one_chunk_tensor = 8"
    by (simp add: max_chunk_size_def one_chunk_tensor_def)
  have n: "num_data_bytes (sample_chunk [1, 2, 3] [3]) = 3"
    by (simp add: num_data_bytes_def sample_chunk_def)
  have u: "is_under_min_space (sample_chunk [1, 2, 3] [3]) (min_chunk_size one_chunk_tensor)"
    by (simp add: is_under_min_space_def min_chunk_size_def m n)
  have c: "min_chunk_ct_for_data_size (max_chunk_size one_chunk_tensor) (int (length [4, 5 :: byte])) =
     min_chunk_ct_for_data_size (max_chunk_size one_chunk_tensor)
       (int (length [4, 5 :: byte]) + num_data_bytes (sample_chunk [1, 2, 3] [3]))"
    by (simp add: min_chunk_ct_div m n)
  have l: "int (length [4, 5 :: byte]) \<le> max_chunk_size one_chunk_tensor"
    by (simp add: m)
  have k: "last_chunk_key one_chunk_tensor = (Inr (name_from_id 0), one_chunk_tensor)"
    by (simp add: last_chunk_key_def chunk_id_encoder_def get_name_last one_chunk_tensor_def eng_simps)
  show ?thesis
    using merged_append_writes_whole_buffer [OF last_chunk_one_chunk u c l, of "[2]"]
      last_chunk_one_chunk u c l
    by (simp add: m n k sample_chunk_def num_data_bytes_def)
qed

text \<open>
  Claim C7. \<open>validate_num_samples_is_synchronized\<close> raises \<open>Corrupted\<close> exactly when the
  length in the tensor meta differs from the number of samples of the chunk id encoder, a
  missing encoder counting as 0 samples, and changes nothing. In particular it raises
  once the encoder is deleted while the length is 5.
\<close>

theorem validate_raises_iff_out_of_sync:
  "validate_num_samples_is_synchronized s =
     (if meta_length (tensor_meta s) \<noteq>
           (case chunk_id_encoder_blob s of None \<Rightarrow> 0 | Some enc \<Rightarrow> enc_num_samples enc)
      then (Inl Corrupted, s) else (Inr (), s)) \<and>
   validate_num_samples_is_synchronized
     (s\<lparr>tensor_meta := (tensor_meta s)\<lparr>meta_length := 5\<rparr>, chunk_id_encoder_blob := None\<rparr>) =
     (Inl Corrupted,
      s\<lparr>tensor_meta := (tensor_meta s)\<lparr>meta_length := 5\<rparr>, chunk_id_encoder_blob := None\<rparr>)"
  by (cases "chunk_id_encoder_blob s")
     (simp_all add: validate_num_samples_is_synchronized_def chunk_id_encoder_exists_def
        chunk_id_encoder_def eng_simps)

text \<open>
  Claim C9. On read-only storage \<open>extend\<close>, \<open>append\<close> and \<open>update\<close> fail with \<open>ReadOnly\<close> at
  their entry and return the state they were given: tensor meta, chunk id encoder and
  chunks are untouched.
\<close>

theorem readonly_fails_at_entry:
  assumes "cache_readonly s"
  shows "extend cd samples s = (Inl ReadOnly, s) \<and>
         append_engine cd sample s = (Inl ReadOnly, s) \<and>
         update cd idx samples' s = (Inl ReadOnly, s)"
  using assms
  by (simp add: extend_def append_engine_def update_def check_readonly_def eng_simps)

theorem readonly_fails_at_entry_witness:
  "cache_readonly (one_chunk_tensor\<lparr>cache_readonly := True\<rparr>) \<and>
   extend raw_codec (PyList [Scalar ([7], [1])]) (one_chunk_tensor\<lparr>cache_readonly := True\<rparr>) =
     (Inl ReadOnly, one_chunk_tensor\<lparr>cache_readonly := True\<rparr>) \<and>
   append_engine raw_codec (Scalar ([7], [1])) (one_chunk_tensor\<lparr>cache_readonly := True\<rparr>) =
     (Inl ReadOnly, one_chunk_tensor\<lparr>cache_readonly := True\<rparr>) \<and>
   update raw_codec (index_int 0) (Scalar ([7, 8, 9], [3])) (one_chunk_tensor\<lparr>cache_readonly := True\<rparr>) =
     (Inl ReadOnly, one_chunk_tensor\<lparr>cache_readonly := True\<rparr>)"
  using readonly_fails_at_entry [of "one_chunk_tensor\<lparr>cache_readonly := True\<rparr>" raw_codec
      "PyList [Scalar ([7], [1])]" "Scalar ([7], [1])" "index_int 0" "Scalar ([7, 8, 9], [3])"]
  by simp

lemmas engine_defs =
  extend_def extend_loop.simps append_bytes_def try_appending_to_last_chunk_def
  append_to_new_chunk_def create_new_chunk_def register_one_sample_def synchronize_cache_def
  last_chunk_def last_chunk_key_def chunk_id_encoder_def num_chunks_def num_samples_def
  get_chunk_def put_chunk_def get_chunks.simps check_readonly_def max_chunk_size_def min_chunk_size_def
  generate_chunk_id_def register_samples_def enc_num_samples_def enc_num_chunks_def
  get_name_for_chunk_def py_index_def append_sample_def new_Chunk_def num_data_bytes_def
  is_under_min_space_def min_chunk_ct_div py_slice_to_def py_bound_def
  update_shape_interval_def set_dtype_def bind_eng_def ok_def raise_def lift_def Let_def

lemmas read_defs =
  numpy_def numpy_loop.simps get_chunk_for_sample_def read_sample_from_chunk_def
  enc_getitem_def translate_index_relative_to_chunks_def row_for.simps local_lookup_def
  py_slice_def np_zeros_def np_dtype_of_def np_frombuffer_def reshape_def
  format_read_samples_def np_array_def

lemma length_zeros [simp]: "length (zeros n) = n"
  by (simp add: zeros_def)

lemma py_slice_empty_range [simp]: "py_slice xs k k = []"
  by (simp add: py_slice_def)

lemma S1_first_result:
  "extend raw_codec (PyList (map blob_sample [1, 1, 14, 15, 15])) (new_tensor (Some (32 * MiB))) =
    (Inr (),
     \<lparr>cache_readonly = False,
      tensor_meta = \<lparr>dtype = Some uint8, min_shape = [1048576], max_shape = [15728640],
                      meta_length = 5, meta_max_chunk_size = Some 33554432,
                      sample_compression = None\<rparr>,
      chunk_id_encoder_blob = Some \<lparr>rows = [(0, 2), (1, 4)], latest_id = None\<rparr>,
      chunks = [name_from_id 0 \<mapsto>
                  \<lparr>data = zeros 1048576 @ zeros 1048576 @ zeros 14680064,
                   shapes_encoder = [[1048576], [1048576], [14680064]],
                   byte_positions_encoder = [(0, 1048576), (1048576, 2097152), (2097152, 16777216)]\<rparr>,
                name_from_id 1 \<mapsto>
                  \<lparr>data = zeros 15728640 @ zeros 15728640,
                   shapes_encoder = [[15728640], [15728640]],
                   byte_positions_encoder = [(0, 15728640), (15728640, 31457280)]\<rparr>],
      random_ids = word_of_nat,
      ids_drawn = 2\<rparr>)"
  by (simp add: engine_defs new_tensor_def raw_codec_def blank_encoder_def
        blob_sample_def MiB_def)

lemma S1_second_result:
  "extend raw_codec (PyList (map blob_sample [15, 1])) S1_first =
    (Inr (),
     \<lparr>cache_readonly = False,
      tensor_meta = \<lparr>dtype = Some uint8, min_shape = [1048576], max_shape = [15728640],
                      meta_length = 7, meta_max_chunk_size = Some 33554432,
                      sample_compression = None\<rparr>,
      chunk_id_encoder_blob = Some \<lparr>rows = [(0, 2), (1, 4), (2, 6)], latest_id = None\<rparr>,
      chunks = [name_from_id 0 \<mapsto>
                  \<lparr>data = zeros 1048576 @ zeros 1048576 @ zeros 14680064,
                   shapes_encoder = [[1048576], [1048576], [14680064]],
                   byte_positions_encoder = [(0, 1048576), (1048576, 2097152), (2097152, 16777216)]\<rparr>,
                name_from_id 1 \<mapsto>
                  \<lparr>data = zeros 15728640 @ zeros 15728640,
                   shapes_encoder = [[15728640], [15728640]],
                   byte_positions_encoder = [(0, 15728640), (15728640, 31457280)]\<rparr>,
                name_from_id 2 \<mapsto>
                  \<lparr>data = zeros 15728640 @ zeros 1048576,
                   shapes_encoder = [[15728640], [1048576]],
                   byte_positions_encoder = [(0, 15728640), (15728640, 16777216)]\<rparr>],
      random_ids = word_of_nat,
      ids_drawn = 3\<rparr>)"
  unfolding S1_first_def S1_first_result snd_conv
  by (simp add: engine_defs raw_codec_def blob_sample_def MiB_def)

text \<open>
  Claim C2 (scenario S1), evaluated on the code. With \<open>max_chunk_size\<close> 32 MiB and samples of
  1, 1, 14, 15 and 15 MiB, the third sample brings the first chunk to 16 MiB, which is no
  longer under \<open>min_chunk_size\<close>, so the fourth sample opens the second chunk: the chunks
  hold samples 0..2 (16 MiB) and 3..4 (30 MiB). Appending 15 MiB and 1 MiB then opens a
  third chunk of 16 MiB; the tensor has 3 chunks and 7 samples.
\<close>

theorem S1_packing_on_the_code:
  "fst (extend raw_codec (PyList (map blob_sample [1, 1, 14, 15, 15]))
          (new_tensor (Some (32 * MiB)))) = Inr () \<and>
   max_chunk_size S1_first = 32 * MiB \<and> min_chunk_size S1_first = 16 * MiB \<and>
   num_chunks S1_first = 2 \<and> meta_length (tensor_meta S1_first) = 5 \<and>
   map_option rows (chunk_id_encoder_blob S1_first) = Some [(0, 2), (1, 4)] \<and>
   map_option num_data_bytes (chunks S1_first (name_from_id 0)) = Some (16 * MiB) \<and>
   map_option num_data_bytes (chunks S1_first (name_from_id 1)) = Some (30 * MiB) \<and>
   fst (extend raw_codec (PyList (map blob_sample [15, 1])) S1_first) = Inr () \<and>
   num_chunks S1_second = 3 \<and> meta_length (tensor_meta S1_second) = 7 \<and>
   map_option rows (chunk_id_encoder_blob S1_second) = Some [(0, 2), (1, 4), (2, 6)] \<and>
   map_option num_data_bytes (chunks S1_second (name_from_id 1)) = Some (30 * MiB) \<and>
   map_option num_data_bytes (chunks S1_second (name_from_id 2)) = Some (16 * MiB)"
  unfolding S1_second_def S1_second_result
  unfolding S1_first_def S1_first_result
  by (simp add: num_chunks_def enc_num_chunks_def num_data_bytes_def MiB_def
        max_chunk_size_def min_chunk_size_def)

lemma S3_tensor_result:
  "extend raw_codec (PyList [Scalar ([], [0, 5])]) (new_tensor None) =
    (Inr (),
     \<lparr>cache_readonly = False,
      tensor_meta = \<lparr>dtype = Some uint8, min_shape = [0, 5], max_shape = [0, 5], meta_length = 1,
                      meta_max_chunk_size = None, sample_compression = None\<rparr>,
      chunk_id_encoder_blob = Some \<lparr>rows = [(0, 0)], latest_id = None\<rparr>,
      chunks = [name_from_id 0 \<mapsto> sample_chunk [] [0, 5]],
      random_ids = word_of_nat,
      ids_drawn = 1\<rparr>)"
  by (simp add: engine_defs new_tensor_def raw_codec_def blank_encoder_def
        sample_chunk_def DEFAULT_MAX_CHUNK_SIZE_def MiB_def)

text \<open>
  Claim C6. A sample whose recorded byte range is empty (\<open>start_byte = end_byte\<close>) is read
  as the zero-filled array of its recorded shape and the tensor's dtype. In particular
  (scenario S3) a sample appended with an empty buffer and shape \<open>(0, 5)\<close> gets the byte
  range \<open>(0, 0)\<close> and reads back as the \<open>(0, 5)\<close> array of zeros.
\<close>

theorem empty_range_reads_zeros:
  assumes enc: "chunk_id_encoder s = (Inr enc, s')"
    and l: "translate_index_relative_to_chunks enc g = Inr l"
    and shp: "local_lookup (shapes_encoder c) l = Inr shp"
    and rng: "local_lookup (byte_positions_encoder c) l = Inr (k, k)"
  shows "read_sample_from_chunk cd g c cast s = (Inr (np_zeros shp (dtype (tensor_meta s))), s') \<and>
         fst (extend raw_codec (PyList [Scalar ([], [0, 5])]) (new_tensor None)) = Inr () \<and>
         map_option byte_positions_encoder (chunks S3_tensor (name_from_id 0)) = Some [(0, 0)] \<and>
         numpy raw_codec (index_int 0) False S3_tensor =
           (Inr (DenseArray \<lparr>arr_shape = [0, 5], arr_dtype = uint8, arr_bytes = []\<rparr>), S3_tensor)"
proof -
  have "read_sample_from_chunk cd g c cast s = (Inr (np_zeros shp (dtype (tensor_meta s))), s')"
    using enc l shp rng by (simp add: read_sample_from_chunk_def Let_def eng_simps)
  moreover have "numpy raw_codec (index_int 0) False S3_tensor =
      (Inr (DenseArray \<lparr>arr_shape = [0, 5], arr_dtype = uint8, arr_bytes = []\<rparr>), S3_tensor)"
    unfolding S3_tensor_def S3_tensor_result snd_conv
    by (simp add: read_defs engine_defs index_int_def sample_chunk_def)
  moreover have "map_option byte_positions_encoder (chunks S3_tensor (name_from_id 0)) = Some [(0, 0)]"
    unfolding S3_tensor_def S3_tensor_result snd_conv by (simp add: sample_chunk_def)
  ultimately show ?thesis by (simp add: S3_tensor_result)
qed

theorem empty_range_reads_zeros_witness:
  "chunk_id_encoder S3_tensor = (Inr \<lparr>rows = [(0, 0)], latest_id = None\<rparr>, S3_tensor) \<and>
   translate_index_relative_to_chunks \<lparr>rows = [(0, 0)], latest_id = None\<rparr> 0 = Inr 0 \<and>
   local_lookup (shapes_encoder (sample_chunk [] [0, 5])) 0 = Inr [0, 5] \<and>
   local_lookup (byte_positions_encoder (sample_chunk [] [0, 5])) 0 = Inr (0, 0) \<and>
   read_sample_from_chunk raw_codec 0 (sample_chunk [] [0, 5]) True S3_tensor =
     (Inr \<lparr>arr_shape = [0, 5], arr_dtype = uint8, arr_bytes = []\<rparr>, S3_tensor)"
proof -
  have e: "chunk_id_encoder S3_tensor = (Inr \<lparr>rows = [(0, 0)], latest_id = None\<rparr>, S3_tensor)"
    unfolding S3_tensor_def S3_tensor_result snd_conv by (simp add: chunk_id_encoder_def eng_simps)
  have t: "translate_index_relative_to_chunks \<lparr>rows = [(0, 0)], latest_id = None\<rparr> 0 = Inr 0"
    by (simp add: translate_index_relative_to_chunks_def)
  have sh: "local_lookup (shapes_encoder (sample_chunk [] [0, 5])) 0 = Inr [0, 5]"
    by (simp add: local_lookup_def sample_chunk_def)
  have r: "local_lookup (byte_positions_encoder (sample_chunk [] [0, 5])) 0 = Inr (0, 0)"
    by (simp add: local_lookup_def sample_chunk_def)
  have d: "dtype (tensor_meta S3_tensor) = Some uint8"
    unfolding S3_tensor_def S3_tensor_result snd_conv by simp
  show ?thesis
    using empty_range_reads_zeros [OF e t sh r, of raw_codec True] e t sh r
    by (simp add: d np_zeros_def np_dtype_of_def uint8_def)
qed

lemma numpy_loop_Cons:
  "numpy_loop cd aslist enc (g # gs) last_shape acc s =
     (case read_sample cd enc g s of
        (Inl e, s1) \<Rightarrow> (Inl e, s1)
      | (Inr sample, s1) \<Rightarrow>
          if \<not> aslist \<and> last_shape \<noteq> None \<and> Some (arr_shape sample) \<noteq> last_shape
          then (Inl DynamicShape, s1)
          else numpy_loop cd aslist enc gs (Some (arr_shape sample)) (acc @ [sample]) s1)"
  by (simp add: read_sample_def eng_simps split: prod.splits sum.splits)

lemma get_chunk_for_sample_state: "snd (get_chunk_for_sample g enc s) = s"
  by (simp add: get_chunk_for_sample_def get_chunk_def eng_simps split: sum.splits option.splits)

lemma read_sample_from_chunk_state:
  "chunk_id_encoder_blob s = Some enc \<Longrightarrow> snd (read_sample_from_chunk cd g c cast s) = s"
  by (simp add: read_sample_from_chunk_def chunk_id_encoder_blob_Some Let_def eng_simps
        split: sum.splits prod.splits)

lemma read_sample_state:
  "chunk_id_encoder_blob s = Some enc' \<Longrightarrow> snd (read_sample cd enc g s) = s"
  using get_chunk_for_sample_state [of g enc s] read_sample_from_chunk_state [of s enc' cd g]
  by (auto simp: read_sample_def bind_eng_def split: prod.splits sum.splits)

lemma shapes_agree_Some: "shapes_agree (Some y) shs \<longleftrightarrow> set shs \<subseteq> {y}"
  by (induction shs arbitrary: y) auto

lemma shapes_agree_None: "shapes_agree None shs \<longleftrightarrow> (\<exists>y. set shs \<subseteq> {y})"
proof (cases shs)
  case Nil
  then show ?thesis by simp
next
  case (Cons x xs)
  have "(\<exists>y. set (x # xs) \<subseteq> {y}) \<longleftrightarrow> set xs \<subseteq> {x}" by auto
  with Cons show ?thesis by (simp add: shapes_agree_Some)
qed

lemma subset_singleton_card: "finite A \<Longrightarrow> (\<exists>y. A \<subseteq> {y}) \<longleftrightarrow> \<not> 1 < card A"
proof -
  assume f: "finite A"
  have "(\<exists>y. A \<subseteq> {y}) \<longleftrightarrow> (\<forall>a\<in>A. \<forall>b\<in>A. a = b)" by blast
  also have "\<dots> \<longleftrightarrow> card A \<le> Suc 0" using f by (rule card_le_Suc0_iff_eq [symmetric])
  finally show ?thesis by (simp add: not_less)
qed

lemma shapes_agree_card: "shapes_agree None shs \<longleftrightarrow> \<not> 1 < card (set shs)"
  unfolding shapes_agree_None by (rule subset_singleton_card) simp

lemma numpy_loop_result:
  assumes blob: "chunk_id_encoder_blob s = Some enc'"
  shows "map (\<lambda>g. fst (read_sample cd enc g s)) gs = map Inr arrs \<Longrightarrow>
     numpy_loop cd aslist enc gs last_shape acc s =
       (if \<not> aslist \<and> \<not> shapes_agree last_shape (map arr_shape arrs) then (Inl DynamicShape, s)
        else (Inr (acc @ arrs), s))"
proof (induction gs arbitrary: arrs acc last_shape)
  case Nil
  then show ?case by (simp add: ok_def)
next
  case (Cons g gs)
  from Cons.prems(1) obtain a arrs' where arrs: "arrs = a # arrs'"
    and ra: "fst (read_sample cd enc g s) = Inr a"
    and rest: "map (\<lambda>g. fst (read_sample cd enc g s)) gs = map Inr arrs'"
    by (cases arrs) auto
  from ra read_sample_state [OF blob, of cd enc g]
  have r: "read_sample cd enc g s = (Inr a, s)" by (cases "read_sample cd enc g s") simp
  have ih: "numpy_loop cd aslist enc gs (Some (arr_shape a)) (acc @ [a]) s =
       (if \<not> aslist \<and> \<not> shapes_agree (Some (arr_shape a)) (map arr_shape arrs')
        then (Inl DynamicShape, s) else (Inr ((acc @ [a]) @ arrs'), s))"
    by (rule Cons.IH [OF rest])
  show ?case
    unfolding numpy_loop_Cons r prod.case sum.case ih arrs
    by (cases last_shape) auto
qed

lemma np_array_not_dynamic: "np_array xs \<noteq> Inl DynamicShape"
  by (simp add: np_array_def split: list.splits)

lemma format_read_samples_not_dynamic: "format_read_samples xs idx aslist \<noteq> Inl DynamicShape"
  using np_array_not_dynamic [of "index_apply idx xs"]
  by (auto simp: format_read_samples_def Let_def split: sum.splits list.splits)

lemma numpy_result:
  assumes blob: "chunk_id_encoder_blob s = Some enc"
    and reads: "map (\<lambda>g. fst (read_sample cd enc g s)) (indices idx (num_samples s)) = map Inr arrs"
  shows "numpy cd idx aslist s =
     (if \<not> aslist \<and> 1 < card (set (map arr_shape arrs)) then (Inl DynamicShape, s)
      else lift (format_read_samples arrs idx aslist) s)"
  using numpy_loop_result [OF blob reads, of aslist None "[]"]
  by (simp add: numpy_def chunk_id_encoder_blob_Some [OF blob] shapes_agree_card bind_eng_def)

text \<open>
  Claim C5. When every addressed sample can be read, \<open>numpy\<close> raises \<open>DynamicShape\<close> exactly
  when \<open>aslist\<close> is false and the samples read do not all have one shape. With \<open>aslist\<close> true
  it never raises \<open>DynamicShape\<close>: it returns what the index makes of the list of arrays
  read, each with the shape it was read with.
\<close>

theorem numpy_raises_dynamic_shape_iff:
  assumes blob: "chunk_id_encoder_blob s = Some enc"
    and reads: "map (\<lambda>g. fst (read_sample cd enc g s)) (indices idx (num_samples s)) = map Inr arrs"
  shows "(fst (numpy cd idx aslist s) = Inl DynamicShape) =
           (\<not> aslist \<and> 1 < card (set (map arr_shape arrs))) \<and>
         fst (numpy cd idx True s) =
           (if subscriptable idx then Inr (SampleList (index_apply idx arrs))
            else case index_apply idx arrs of
                   [] \<Rightarrow> Inl IndexError
                 | x # rest \<Rightarrow> Inr (SingleSample x))"
proof -
  have "fst (lift (format_read_samples arrs idx aslist) s) \<noteq> Inl DynamicShape"
    using format_read_samples_not_dynamic [of arrs idx aslist]
    by (cases "format_read_samples arrs idx aslist") (simp_all add: lift_def)
  then have "(fst (numpy cd idx aslist s) = Inl DynamicShape) =
           (\<not> aslist \<and> 1 < card (set (map arr_shape arrs)))"
    unfolding numpy_result [OF blob reads] by simp
  moreover have "fst (numpy cd idx True s) =
           (if subscriptable idx then Inr (SampleList (index_apply idx arrs))
            else case index_apply idx arrs of
                   [] \<Rightarrow> Inl IndexError
                 | x # rest \<Rightarrow> Inr (SingleSample x))"
    unfolding numpy_result [OF blob reads]
    by (simp add: format_read_samples_def lift_def Let_def split: list.splits)
  ultimately show ?thesis by simp
qed

lemma S2_tensor_result:
  "extend raw_codec (PyList [Scalar (zeros 100, [10, 10]), Scalar (zeros 150, [10, 15])])
     (new_tensor None) =
    (Inr (),
     \<lparr>cache_readonly = False,
      tensor_meta = \<lparr>dtype = Some uint8, min_shape = [10, 10], max_shape = [10, 15],
                      meta_length = 2, meta_max_chunk_size = None, sample_compression = None\<rparr>,
      chunk_id_encoder_blob = Some \<lparr>rows = [(0, 1)], latest_id = None\<rparr>,
      chunks = [name_from_id 0 \<mapsto>
                  \<lparr>data = zeros 100 @ zeros 150, shapes_encoder = [[10, 10], [10, 15]],
                   byte_positions_encoder = [(0, 100), (100, 250)]\<rparr>],
      random_ids = word_of_nat,
      ids_drawn = 1\<rparr>)"
  by (simp add: engine_defs new_tensor_def raw_codec_def blank_encoder_def
        DEFAULT_MAX_CHUNK_SIZE_def MiB_def)

lemma S2_reads:
  "map (\<lambda>g. fst (read_sample raw_codec \<lparr>rows = [(0, 1)], latest_id = None\<rparr> g S2_tensor)) [0, 1] =
   map Inr [\<lparr>arr_shape = [10, 10], arr_dtype = uint8, arr_bytes = zeros 100\<rparr>,
            \<lparr>arr_shape = [10, 15], arr_dtype = uint8, arr_bytes = zeros 150\<rparr>]"
  unfolding S2_tensor_def S2_tensor_result snd_conv
  by (simp add: read_sample_def read_defs engine_defs uint8_def)

theorem numpy_raises_dynamic_shape_iff_witness:
  "chunk_id_encoder_blob S2_tensor = Some \<lparr>rows = [(0, 1)], latest_id = None\<rparr> \<and>
   map (\<lambda>g. fst (read_sample raw_codec \<lparr>rows = [(0, 1)], latest_id = None\<rparr> g S2_tensor))
     (indices (index_list [0, 1]) (num_samples S2_tensor)) =
   map Inr [\<lparr>arr_shape = [10, 10], arr_dtype = uint8, arr_bytes = zeros 100\<rparr>,
            \<lparr>arr_shape = [10, 15], arr_dtype = uint8, arr_bytes = zeros 150\<rparr>] \<and>
   fst (numpy raw_codec (index_list [0, 1]) False S2_tensor) = Inl DynamicShape \<and>
   fst (numpy raw_codec (index_list [0, 1]) True S2_tensor) =
     Inr (SampleList [\<lparr>arr_shape = [10, 10], arr_dtype = uint8, arr_bytes = zeros 100\<rparr>,
                      \<lparr>arr_shape = [10, 15], arr_dtype = uint8, arr_bytes = zeros 150\<rparr>])"
proof -
  have b: "chunk_id_encoder_blob S2_tensor = Some \<lparr>rows = [(0, 1)], latest_id = None\<rparr>"
    unfolding S2_tensor_def S2_tensor_result snd_conv by simp
  have r: "map (\<lambda>g. fst (read_sample raw_codec \<lparr>rows = [(0, 1)], latest_id = None\<rparr> g S2_tensor))
     (indices (index_list [0, 1]) (num_samples S2_tensor)) =
   map Inr [\<lparr>arr_shape = [10, 10], arr_dtype = uint8, arr_bytes = zeros 100\<rparr>,
            \<lparr>arr_shape = [10, 15], arr_dtype = uint8, arr_bytes = zeros 150\<rparr>]"
    using S2_reads by (simp add: index_list_def)
  show ?thesis
    using numpy_raises_dynamic_shape_iff [OF b r, of False] b r
    by (simp add: index_list_def)
qed

lemma row_for_found: "rs \<noteq> [] \<Longrightarrow> g \<le> snd (last rs) \<Longrightarrow> \<exists>k. row_for rs g = Some k \<and> k < length rs"
proof (induction rs)
  case Nil
  then show ?case by simp
next
  case (Cons r rs)
  obtain c l where r: "r = (c, l)" by (cases r)
  show ?case
  proof (cases "g \<le> l")
    case True
    with r show ?thesis by simp
  next
    case False
    with Cons.prems r have ne: "rs \<noteq> []" by (cases rs) auto
    with Cons.prems have "g \<le> snd (last rs)" by simp
    with Cons.IH ne obtain k where "row_for rs g = Some k" "k < length rs" by blast
    with False r show ?thesis by simp
  qed
qed

lemma enc_getitem_in_range:
  assumes "0 \<le> g" and "g < enc_num_samples enc"
  shows "\<exists>cid. enc_getitem enc g = Inr cid"
proof -
  from assms have ne: "rows enc \<noteq> []" by (auto simp: enc_num_samples_def)
  with assms have "g \<le> snd (last (rows enc))" by (simp add: enc_num_samples_def)
  with row_for_found [OF ne] obtain k where "row_for (rows enc) g = Some k" by blast
  then show ?thesis by (simp add: enc_getitem_def)
qed


declare get_chunk_names_loop.simps [simp del]

lemma int_interval_step: "(i::int) < j \<Longrightarrow> {i..<j} = insert i {i + 1..<j}"
  by auto

lemma get_chunk_names_loop_spec:
  assumes blob: "chunk_id_encoder_blob s = Some enc"
  shows "finite names \<Longrightarrow> 0 \<le> i \<Longrightarrow> last_index \<le> enc_num_samples enc \<Longrightarrow>
     \<exists>stop. get_chunk_names_loop names i last_index target s =
              (Inr (names \<union> chunk_name_at enc ` {i..<stop}), s) \<and>
            i \<le> stop \<and> stop \<le> max i last_index \<and>
            (\<forall>j. i \<le> j \<and> j < stop \<longrightarrow> int (card (names \<union> chunk_name_at enc ` {i..<j})) < target) \<and>
            (int (card (names \<union> chunk_name_at enc ` {i..<stop})) < target \<longrightarrow> last_index \<le> stop)"
  using blob
proof (induction names i last_index target s rule: get_chunk_names_loop.induct)
  case (1 names i last_index target s)
  note blob1 = \<open>chunk_id_encoder_blob s = Some enc\<close>
  show ?case
  proof (cases "int (card names) < target \<and> i < last_index")
    case True
    with "1.prems" have "0 \<le> i" "i < enc_num_samples enc" by simp_all
    then obtain cid where cid: "enc_getitem enc i = Inr cid"
      using enc_getitem_in_range by blast
    have step: "get_chunk_names_loop names i last_index target s =
        get_chunk_names_loop (insert (name_from_id cid) names) (i + 1) last_index target s"
      by (subst get_chunk_names_loop.simps)
         (simp add: True cid chunk_id_encoder_blob_Some [OF blob1] bind_eng_def)
    from "1.IH" [OF True cid, of s] "1.prems" blob1
    obtain stop where
      r: "get_chunk_names_loop (insert (name_from_id cid) names) (i + 1) last_index target s =
           (Inr (insert (name_from_id cid) names \<union> chunk_name_at enc ` {i + 1..<stop}), s)"
      and lo: "i + 1 \<le> stop" and hi: "stop \<le> max (i + 1) last_index"
      and went: "\<forall>j. i + 1 \<le> j \<and> j < stop \<longrightarrow>
          int (card (insert (name_from_id cid) names \<union> chunk_name_at enc ` {i + 1..<j})) < target"
      and few: "int (card (insert (name_from_id cid) names \<union> chunk_name_at enc ` {i + 1..<stop})) < target
                \<longrightarrow> last_index \<le> stop"
      by auto
    have n: "chunk_name_at enc i = name_from_id cid" by (simp add: chunk_name_at_def cid)
    have eq: "insert (name_from_id cid) names \<union> chunk_name_at enc ` {i + 1..<j} =
        names \<union> chunk_name_at enc ` {i..<j}" if "i + 1 \<le> j" for j
    proof -
      from that have "{i..<j} = insert i {i + 1..<j}" by (intro int_interval_step) simp
      then show ?thesis using n by simp
    qed
    from hi True have hi': "stop \<le> max i last_index" by simp
    from lo have lo': "i \<le> stop" by simp
    have went': "int (card (names \<union> chunk_name_at enc ` {i..<j})) < target"
      if j: "i \<le> j \<and> j < stop" for j
    proof (cases "j = i")
      case True
      with \<open>int (card names) < target \<and> i < last_index\<close> show ?thesis by simp
    next
      case False
      with j have ij: "i + 1 \<le> j" by simp
      with went j have "int (card (insert (name_from_id cid) names \<union> chunk_name_at enc ` {i + 1..<j})) < target"
        by blast
      then show ?thesis unfolding eq [OF ij] .
    qed
    show ?thesis
      unfolding step r eq [OF lo] using few [unfolded eq [OF lo]] lo' hi' went' by blast
  next
    case False
    then have c: "(int (card names) < target \<and> i < last_index) = False" by simp
    have "get_chunk_names_loop names i last_index target s = (Inr names, s)"
      by (subst get_chunk_names_loop.simps) (simp only: c if_False ok_def)
    with False show ?thesis by (intro exI [of _ i]) auto
  qed
qed

lemma get_chunk_names_loop_at_most:
  assumes blob: "chunk_id_encoder_blob s = Some enc"
  shows "finite names \<Longrightarrow> get_chunk_names_loop names i last_index target s = (Inr R, s') \<Longrightarrow>
     int (card R) \<le> max (int (card names)) target"
  using blob
proof (induction names i last_index target s rule: get_chunk_names_loop.induct)
  case (1 names i last_index target s)
  note blob1 = \<open>chunk_id_encoder_blob s = Some enc\<close>
  show ?case
  proof (cases "int (card names) < target \<and> i < last_index")
    case True
    from "1.prems"(2) True obtain cid where cid: "enc_getitem enc i = Inr cid"
      and r: "get_chunk_names_loop (insert (name_from_id cid) names) (i + 1) last_index target s = (Inr R, s')"
      by (subst (asm) get_chunk_names_loop.simps)
         (auto simp: chunk_id_encoder_blob_Some [OF blob1] bind_eng_def raise_def split: sum.splits)
    from "1.IH" [OF True cid _ r blob1] "1.prems"(1)
    have "int (card R) \<le> max (int (card (insert (name_from_id cid) names))) target" by simp
    moreover have "card (insert (name_from_id cid) names) \<le> Suc (card names)"
      by (rule card_insert_le_m1) simp_all
    ultimately show ?thesis using True by linarith
  next
    case False
    then have c: "(int (card names) < target \<and> i < last_index) = False" by simp
    from "1.prems"(2) have "R = names"
      by (subst (asm) get_chunk_names_loop.simps) (simp only: c if_False ok_def prod.inject sum.inject)
    then show ?thesis by simp
  qed
qed

lemma two_chunk_tensor_result:
  "extend raw_codec
     (PyList [Scalar ([1], [1]), Scalar ([2], [1]), Scalar ([3, 4], [2]),
              Scalar ([5, 6, 7], [3]), Scalar ([8, 9, 10], [3])])
     (new_tensor (Some 8)) =
    (Inr (),
     \<lparr>cache_readonly = False,
      tensor_meta = \<lparr>dtype = Some uint8, min_shape = [1], max_shape = [3], meta_length = 5,
                      meta_max_chunk_size = Some 8, sample_compression = None\<rparr>,
      chunk_id_encoder_blob = Some two_chunk_encoder,
      chunks = [name_from_id 0 \<mapsto>
                  \<lparr>data = [1, 2, 3, 4], shapes_encoder = [[1], [1], [2]],
                   byte_positions_encoder = [(0, 1), (1, 2), (2, 4)]\<rparr>,
                name_from_id 1 \<mapsto>
                  \<lparr>data = [5, 6, 7, 8, 9, 10], shapes_encoder = [[3], [3]],
                   byte_positions_encoder = [(0, 3), (3, 6)]\<rparr>],
      random_ids = word_of_nat,
      ids_drawn = 2\<rparr>)"
  by (simp add: engine_defs new_tensor_def raw_codec_def blank_encoder_def two_chunk_encoder_def)

lemma two_chunk_tensor_blob: "chunk_id_encoder_blob two_chunk_tensor = Some two_chunk_encoder"
  unfolding two_chunk_tensor_def two_chunk_tensor_result snd_conv by simp

lemma two_chunk_names:
  "chunk_name_at two_chunk_encoder 0 = name_from_id 0"
  "chunk_name_at two_chunk_encoder 1 = name_from_id 0"
  "chunk_name_at two_chunk_encoder 2 = name_from_id 0"
  "chunk_name_at two_chunk_encoder 3 = name_from_id 1"
  "chunk_name_at two_chunk_encoder 4 = name_from_id 1"
  by (simp_all add: chunk_name_at_def enc_getitem_def two_chunk_encoder_def)

lemma get_chunk_names_at_most_target:
  assumes "chunk_id_encoder_blob s = Some enc"
    and "get_chunk_names start last_index target s = (Inr R, s')"
  shows "int (card R) \<le> max 0 target"
  using get_chunk_names_loop_at_most [OF assms(1), of "{}" start last_index target R s'] assms(2)
  by (simp add: get_chunk_names_def)

text \<open>
  Claim C4 says that the names returned cover the samples of \<open>[start, last)\<close>. On a tensor
  whose samples 0..2 are in the first chunk and 3..4 in the second,
  \<open>get_chunk_names 0 5 1\<close> returns the first chunk's name only: the loop stops once it has
  \<open>target\<close> names, and the chunk of sample 4 is missing.
\<close>

theorem get_chunk_names_stops_at_target_counterexample:
  "get_chunk_names 0 5 1 two_chunk_tensor = (Inr {name_from_id 0}, two_chunk_tensor) \<and>
   enc_getitem two_chunk_encoder 4 = Inr 1 \<and>
   name_from_id 1 \<notin> {name_from_id 0}"
proof -
  have e: "chunk_id_encoder two_chunk_tensor = (Inr two_chunk_encoder, two_chunk_tensor)"
    by (rule chunk_id_encoder_blob_Some [OF two_chunk_tensor_blob])
  have g0: "enc_getitem two_chunk_encoder 0 = Inr 0"
    by (simp add: enc_getitem_def two_chunk_encoder_def)
  have "get_chunk_names 0 5 1 two_chunk_tensor = (Inr {name_from_id 0}, two_chunk_tensor)"
    unfolding get_chunk_names_def
    by (subst get_chunk_names_loop.simps, simp add: e g0 bind_eng_def,
        subst get_chunk_names_loop.simps, simp add: ok_def)
  then show ?thesis by (simp add: enc_getitem_def two_chunk_encoder_def)
qed

text \<open>
  Claim C4, amended. For a range inside the tensor, \<open>get_chunk_names\<close> returns the names of
  exactly the chunks that hold the samples \<open>[start, stop)\<close>, where \<open>stop\<close> is the first index
  at which \<open>target\<close> names have been collected or the range is exhausted: before every
  visited sample fewer than \<open>target\<close> names had been collected, and if fewer than \<open>target\<close>
  names are returned then the whole range was visited. It never returns more than
  \<open>target\<close> names, and it returns at least \<open>target\<close> names whenever the chunks of the range
  have that many names.
\<close>

theorem get_chunk_names_covers_visited_prefix:
  assumes blob: "chunk_id_encoder_blob s = Some enc"
    and lo: "0 \<le> start" and hi: "last_index \<le> enc_num_samples enc"
  shows "\<exists>stop. get_chunk_names start last_index target s =
                  (Inr (chunk_name_at enc ` {start..<stop}), s) \<and>
           start \<le> stop \<and> stop \<le> max start last_index \<and>
           (\<forall>j. start \<le> j \<and> j < stop \<longrightarrow>
                int (card (chunk_name_at enc ` {start..<j})) < target \<and> j < last_index) \<and>
           (int (card (chunk_name_at enc ` {start..<stop})) < target \<longrightarrow> last_index \<le> stop) \<and>
           int (card (chunk_name_at enc ` {start..<stop})) \<le> max 0 target \<and>
           (target \<le> int (card (chunk_name_at enc ` {start..<last_index})) \<longrightarrow>
              target \<le> int (card (chunk_name_at enc ` {start..<stop})))"
proof -
  from get_chunk_names_loop_spec [OF blob _ lo hi, of "{}" target]
  obtain stop where
    r: "get_chunk_names start last_index target s = (Inr (chunk_name_at enc ` {start..<stop}), s)"
    and b: "start \<le> stop" "stop \<le> max start last_index"
    and went0: "\<forall>j. start \<le> j \<and> j < stop \<longrightarrow>
                int (card (chunk_name_at enc ` {start..<j})) < target"
    and few: "int (card (chunk_name_at enc ` {start..<stop})) < target \<longrightarrow> last_index \<le> stop"
    by (auto simp: get_chunk_names_def)
  from b have "\<forall>j. start \<le> j \<and> j < stop \<longrightarrow> j < last_index" by auto
  with went0 have went: "\<forall>j. start \<le> j \<and> j < stop \<longrightarrow>
                int (card (chunk_name_at enc ` {start..<j})) < target \<and> j < last_index"
    by blast
  have most: "int (card (chunk_name_at enc ` {start..<stop})) \<le> max 0 target"
    by (rule get_chunk_names_at_most_target [OF blob r])
  have "target \<le> int (card (chunk_name_at enc ` {start..<stop}))"
    if all: "target \<le> int (card (chunk_name_at enc ` {start..<last_index}))"
  proof (rule ccontr)
    assume "\<not> target \<le> int (card (chunk_name_at enc ` {start..<stop}))"
    then have lt: "int (card (chunk_name_at enc ` {start..<stop})) < target" by simp
    with few have "last_index \<le> stop" by simp
    with b have "{start..<last_index} = {start..<stop}" by auto
    with all lt show False by simp
  qed
  with r b went few most show ?thesis by blast
qed

theorem get_chunk_names_covers_visited_prefix_witness:
  "chunk_id_encoder_blob two_chunk_tensor = Some two_chunk_encoder \<and>
   (0::int) \<le> 0 \<and> 5 \<le> enc_num_samples two_chunk_encoder \<and>
   (\<exists>stop. get_chunk_names 0 5 2 two_chunk_tensor =
             (Inr (chunk_name_at two_chunk_encoder ` {0..<stop}), two_chunk_tensor) \<and>
           0 \<le> stop \<and> stop \<le> 5 \<and>
           (\<forall>j. 0 \<le> j \<and> j < stop \<longrightarrow>
                int (card (chunk_name_at two_chunk_encoder ` {0..<j})) < 2 \<and> j < 5) \<and>
           (int (card (chunk_name_at two_chunk_encoder ` {0..<stop})) < 2 \<longrightarrow> 5 \<le> stop) \<and>
           int (card (chunk_name_at two_chunk_encoder ` {0..<stop})) \<le> 2 \<and>
           2 \<le> int (card (chunk_name_at two_chunk_encoder ` {0..<stop})))"
proof -
  have n: "5 \<le> enc_num_samples two_chunk_encoder"
    by (simp add: enc_num_samples_def two_chunk_encoder_def)
  have i: "{0..<5::int} = {0, 1, 2, 3, 4}" by auto
  have c: "2 \<le> int (card (chunk_name_at two_chunk_encoder ` {0..<5}))"
    unfolding i by (simp add: two_chunk_names)
  show ?thesis
    using get_chunk_names_covers_visited_prefix [OF two_chunk_tensor_blob _ n, of 0 2]
      two_chunk_tensor_blob n c
    by auto
qed


lemma length_byte_ranges [simp]: "length (byte_ranges off bs) = length bs"
  by (induction bs arbitrary: off) simp_all


lemma chunk_of_Nil: "chunk_of [] = new_Chunk"
  by (simp add: chunk_of_def new_Chunk_def)






lemma length_rows_from [simp]: "length (rows_from n lay) = length lay"
  by (induction n lay rule: rows_from.induct) simp_all


lemma rows_from_Nil_iff [simp]: "rows_from n lay = [] \<longleftrightarrow> lay = []"
  by (cases lay) auto



















lemma represents_tensor_meta [simp]:
  "represents lay (s\<lparr>tensor_meta := tm\<rparr>) = represents lay s"
  by (simp add: represents_def)

lemma max_chunk_size_tensor_meta:
  "meta_max_chunk_size tm = meta_max_chunk_size (tensor_meta s) \<Longrightarrow>
   max_chunk_size (s\<lparr>tensor_meta := tm\<rparr>) = max_chunk_size s"
  by (simp add: max_chunk_size_def)

lemma update_shape_interval_keeps:
  "update_shape_interval tm shp = Inr tm' \<Longrightarrow>
   meta_max_chunk_size tm' = meta_max_chunk_size tm \<and> dtype tm' = dtype tm \<and>
   sample_compression tm' = sample_compression tm \<and> meta_length tm' = meta_length tm"
  by (auto simp: update_shape_interval_def split: if_splits)


lemma represents_blank: "represents [] (s\<lparr>chunk_id_encoder_blob := Some blank_encoder\<rparr>)"
  by (simp add: represents_def blank_encoder_def)



lemma py_index_nat:
  "py_index xs (int i) = (if i < length xs then Inr (xs ! i) else Inl IndexError)"
  by (simp add: py_index_def)

lemma update_one_result:
  assumes run: "update_one cd (buf, shp) i gs enc acc s = (Inr acc1, s1)"
  shows "\<exists>cid c l tm c' lk.
    i < length gs \<and> enc_getitem enc (gs ! i) = Inr cid \<and>
    chunks s (name_from_id cid) = Some c \<and>
    translate_index_relative_to_chunks enc (gs ! i) = Inr l \<and>
    update_shape_interval (tensor_meta s) shp = Inr tm \<and>
    update_sample c l buf shp = Inr c' \<and>
    last_chunk_key (s\<lparr>tensor_meta := tm, chunks := (chunks s)(name_from_id cid \<mapsto> c')\<rparr>) =
      (Inr lk, s1) \<and>
    acc1 = (if name_from_id cid \<noteq> lk then acc @ [nbytes (chunk_header_nbytes cd) c'] else acc)"
proof -
  from run have i: "i < length gs"
    by (auto simp: update_one_def py_index_nat raise_def split: if_splits)
  from run i obtain cid where cid: "enc_getitem enc (gs ! i) = Inr cid"
    by (cases "enc_getitem enc (gs ! i)")
       (auto simp: update_one_def py_index_nat get_chunk_for_sample_def eng_simps)
  from run i cid obtain c where c: "chunks s (name_from_id cid) = Some c"
    by (cases "chunks s (name_from_id cid)")
       (auto simp: update_one_def py_index_nat get_chunk_for_sample_def get_chunk_def eng_simps)
  have gc: "get_chunk_for_sample (gs ! i) enc s = (Inr (name_from_id cid, c), s)"
    by (simp add: get_chunk_for_sample_def cid get_chunk_def c eng_simps)
  from run i gc obtain l where l: "translate_index_relative_to_chunks enc (gs ! i) = Inr l"
    by (cases "translate_index_relative_to_chunks enc (gs ! i)")
       (auto simp: update_one_def py_index_nat eng_simps)
  from run i gc l obtain tm where tm: "update_shape_interval (tensor_meta s) shp = Inr tm"
    by (cases "update_shape_interval (tensor_meta s) shp")
       (auto simp: update_one_def py_index_nat eng_simps)
  from run i gc l tm obtain c' where c': "update_sample c l buf shp = Inr c'"
    by (cases "update_sample c l buf shp")
       (auto simp: update_one_def py_index_nat eng_simps)
  let ?s2 = "s\<lparr>tensor_meta := tm, chunks := (chunks s)(name_from_id cid \<mapsto> c')\<rparr>"
  have "update_one cd (buf, shp) i gs enc acc s =
    bind_eng last_chunk_key
       (\<lambda>lk. ok (if name_from_id cid \<noteq> lk then acc @ [nbytes (chunk_header_nbytes cd) c'] else acc)) ?s2"
    using i by (simp add: update_one_def py_index_nat put_chunk_def gc l tm c' bind_eng_def [of "get_chunk_for_sample (gs ! i) enc"] bind_eng_def [of "put_chunk (name_from_id cid) c'"] ok_def [of "()"])
  with run have "bind_eng last_chunk_key
       (\<lambda>lk. ok (if name_from_id cid \<noteq> lk then acc @ [nbytes (chunk_header_nbytes cd) c'] else acc)) ?s2 = (Inr acc1, s1)"
    by simp
  then obtain lk where "last_chunk_key ?s2 = (Inr lk, s1)"
    and "acc1 = (if name_from_id cid \<noteq> lk then acc @ [nbytes (chunk_header_nbytes cd) c'] else acc)"
    by (auto simp: bind_eng_def ok_def split: prod.splits sum.splits)
  with i cid c l tm c' show ?thesis by blast
qed


lemma update_one_state:
  "snd (update_one cd smp i gs enc acc s) = snd (update_one cd smp i gs enc [] s)"
  by (cases smp)
     (simp add: update_one_def py_index_nat get_chunk_for_sample_def get_chunk_def put_chunk_def
        last_chunk_key_def chunk_id_encoder_def eng_simps
        split: sum.splits option.splits prod.splits)

lemma fst_last_chunk_key:
  "chunk_id_encoder_blob s = Some enc0 \<Longrightarrow> fst (last_chunk_key s) = get_name_for_chunk enc0 (- 1)"
  by (simp add: last_chunk_key_blob lift_def ok_def raise_def split: sum.splits)

lemma snd_last_chunk_key:
  "chunk_id_encoder_blob s = Some enc0 \<Longrightarrow> snd (last_chunk_key s) = s"
  by (simp add: last_chunk_key_blob lift_def ok_def raise_def split: sum.splits)

lemma update_one_step:
  assumes run: "update_one cd (buf, shp) i gs enc acc s = (Inr acc1, s1)"
    and blob: "chunk_id_encoder_blob s = Some enc0"
  shows "\<exists>c'. chunks s1 (chunk_name_at enc (gs ! i)) = Some c' \<and>
           acc1 = (if fst (last_chunk_key s) \<noteq> Inr (chunk_name_at enc (gs ! i))
                   then acc @ [nbytes (chunk_header_nbytes cd) c'] else acc)"
    and "chunk_id_encoder_blob s1 = Some enc0"
    and "meta_max_chunk_size (tensor_meta s1) = meta_max_chunk_size (tensor_meta s)"
proof -
  from update_one_result [OF run] obtain cid c l tm c' lk where
    i: "i < length gs" and cid: "enc_getitem enc (gs ! i) = Inr cid"
    and tm: "update_shape_interval (tensor_meta s) shp = Inr tm"
    and lk: "last_chunk_key (s\<lparr>tensor_meta := tm, chunks := (chunks s)(name_from_id cid \<mapsto> c')\<rparr>) =
      (Inr lk, s1)"
    and acc1: "acc1 = (if name_from_id cid \<noteq> lk then acc @ [nbytes (chunk_header_nbytes cd) c'] else acc)"
    by blast
  let ?s2 = "s\<lparr>tensor_meta := tm, chunks := (chunks s)(name_from_id cid \<mapsto> c')\<rparr>"
  have blob2: "chunk_id_encoder_blob ?s2 = Some enc0" using blob by simp
  from snd_last_chunk_key [OF blob2] lk have s1: "s1 = ?s2" by simp
  from fst_last_chunk_key [OF blob2] lk have g: "get_name_for_chunk enc0 (- 1) = Inr lk" by simp
  have f: "fst (last_chunk_key s) = Inr lk" using fst_last_chunk_key [OF blob] g by simp
  have k: "chunk_name_at enc (gs ! i) = name_from_id cid" by (simp add: chunk_name_at_def cid)
  show "\<exists>c'. chunks s1 (chunk_name_at enc (gs ! i)) = Some c' \<and>
           acc1 = (if fst (last_chunk_key s) \<noteq> Inr (chunk_name_at enc (gs ! i))
                   then acc @ [nbytes (chunk_header_nbytes cd) c'] else acc)"
    unfolding k f s1 using acc1 by auto
  show "chunk_id_encoder_blob s1 = Some enc0" unfolding s1 by (rule blob2)
  show "meta_max_chunk_size (tensor_meta s1) = meta_max_chunk_size (tensor_meta s)"
    unfolding s1 using update_shape_interval_keeps [OF tm] by simp
qed

lemma update_loop_Cons_run:
  assumes "update_loop cd (smp # rest) i gs enc acc s = (Inr nb, s')"
  obtains acc1 s1 where "update_one cd smp i gs enc acc s = (Inr acc1, s1)"
    and "update_loop cd rest (Suc i) gs enc acc1 s1 = (Inr nb, s')"
  using assms by (auto simp: bind_eng_def split: prod.splits sum.splits)

lemma update_loop_recorded:
  assumes "update_loop cd ser i gs enc acc s = (Inr nb, s')"
    and "chunk_id_encoder_blob s = Some enc0"
  shows "((\<exists>n\<in>set nb. P n) \<longleftrightarrow>
           (\<exists>n\<in>set acc. P n) \<or>
           (\<exists>j<length ser. fst (last_chunk_key s) \<noteq> Inr (chunk_name_at enc (gs ! (i + j))) \<and>
              (\<exists>c. chunks (rewrite_states cd ser i gs enc s ! j) (chunk_name_at enc (gs ! (i + j))) = Some c \<and>
                   P (nbytes (chunk_header_nbytes cd) c)))) \<and>
         chunk_id_encoder_blob s' = Some enc0 \<and>
         meta_max_chunk_size (tensor_meta s') = meta_max_chunk_size (tensor_meta s)"
  using assms
proof (induction ser arbitrary: i acc s)
  case Nil
  then show ?case by (simp add: ok_def)
next
  case (Cons smp rest)
  obtain buf shp where smp: "smp = (buf, shp)" by (cases smp)
  from Cons.prems(1) obtain acc1 s1 where
    one: "update_one cd smp i gs enc acc s = (Inr acc1, s1)"
    and rest: "update_loop cd rest (Suc i) gs enc acc1 s1 = (Inr nb, s')"
    by (rule update_loop_Cons_run)
  note st = update_one_step [OF one [unfolded smp] Cons.prems(2)]
  from st(1) obtain c' where c': "chunks s1 (chunk_name_at enc (gs ! i)) = Some c'"
    and acc1: "acc1 = (if fst (last_chunk_key s) \<noteq> Inr (chunk_name_at enc (gs ! i))
                   then acc @ [nbytes (chunk_header_nbytes cd) c'] else acc)" by blast
  have s1: "snd (update_one cd smp i gs enc [] s) = s1"
    using update_one_state [of cd smp i gs enc acc s] one by simp
  have lk: "fst (last_chunk_key s1) = fst (last_chunk_key s)"
    by (simp add: fst_last_chunk_key [OF st(2)] fst_last_chunk_key [OF Cons.prems(2)])
  note ih = Cons.IH [OF rest st(2)]
  have rs: "rewrite_states cd (smp # rest) i gs enc s = s1 # rewrite_states cd rest (Suc i) gs enc s1"
    by (simp add: s1)
  have head: "(\<exists>n\<in>set acc1. P n) \<longleftrightarrow>
      (\<exists>n\<in>set acc. P n) \<or>
      (fst (last_chunk_key s) \<noteq> Inr (chunk_name_at enc (gs ! i)) \<and>
       (\<exists>c. chunks s1 (chunk_name_at enc (gs ! i)) = Some c \<and> P (nbytes (chunk_header_nbytes cd) c)))"
    unfolding acc1 using c' by auto
  from ih have tail: "(\<exists>n\<in>set nb. P n) \<longleftrightarrow>
      (\<exists>n\<in>set acc1. P n) \<or>
      (\<exists>j<length rest. fst (last_chunk_key s) \<noteq> Inr (chunk_name_at enc (gs ! (i + Suc j))) \<and>
         (\<exists>c. chunks (rewrite_states cd rest (Suc i) gs enc s1 ! j)
                 (chunk_name_at enc (gs ! (i + Suc j))) = Some c \<and> P (nbytes (chunk_header_nbytes cd) c)))"
    unfolding lk by simp
  have "(\<exists>n\<in>set nb. P n) \<longleftrightarrow>
           (\<exists>n\<in>set acc. P n) \<or>
           (\<exists>j<length (smp # rest).
              fst (last_chunk_key s) \<noteq> Inr (chunk_name_at enc (gs ! (i + j))) \<and>
              (\<exists>c. chunks (rewrite_states cd (smp # rest) i gs enc s ! j)
                      (chunk_name_at enc (gs ! (i + j))) = Some c \<and> P (nbytes (chunk_header_nbytes cd) c)))"
    unfolding tail head rs length_Cons Ex_less_Suc2 by simp
  moreover from ih have "chunk_id_encoder_blob s' = Some enc0" by simp
  moreover from ih st(3) have
    "meta_max_chunk_size (tensor_meta s') = meta_max_chunk_size (tensor_meta s)" by simp
  ultimately show ?case by blast
qed

lemma warn_loop_iff:
  "warn_loop u l xs =
     (if \<exists>n\<in>set xs. real_of_int n > u \<or> real_of_int n < l then [SuboptimalChunks] else [])"
  by (induction xs) auto

lemma warn_if_suboptimal_chunks_iff:
  "warn_if_suboptimal_chunks nb mn mx =
     (if \<exists>n\<in>set nb. suboptimal mn mx n then [SuboptimalChunks] else [])"
  by (simp add: warn_if_suboptimal_chunks_def Let_def warn_loop_iff suboptimal_def)

lemma synchronize_cache_no_keys:
  "chunk_id_encoder_blob s = Some enc0 \<Longrightarrow> synchronize_cache (Some []) s = (Inr (), s)"
  by (simp add: synchronize_cache_def chunk_id_encoder_blob_Some eng_simps)



lemma kilo_tensor_result:
  "extend raw_codec (PyList (map zero_sample [10, 480, 490, 300])) (new_tensor (Some 1000)) =
    (Inr (),
     \<lparr>cache_readonly = False,
      tensor_meta = \<lparr>dtype = Some uint8, min_shape = [10], max_shape = [490], meta_length = 4,
                      meta_max_chunk_size = Some 1000, sample_compression = None\<rparr>,
      chunk_id_encoder_blob = Some kilo_encoder,
      chunks = [name_from_id 0 \<mapsto>
                  \<lparr>data = zeros 10 @ zeros 480 @ zeros 490,
                   shapes_encoder = [[10], [480], [490]],
                   byte_positions_encoder = [(0, 10), (10, 490), (490, 980)]\<rparr>,
                name_from_id 1 \<mapsto>
                  \<lparr>data = zeros 300, shapes_encoder = [[300]],
                   byte_positions_encoder = [(0, 300)]\<rparr>],
      random_ids = word_of_nat,
      ids_drawn = 2\<rparr>)"
  by (simp add: engine_defs new_tensor_def raw_codec_def blank_encoder_def kilo_encoder_def
        zero_sample_def)

lemma kilo_tensor_eq:
  "kilo_tensor =
     \<lparr>cache_readonly = False,
      tensor_meta = \<lparr>dtype = Some uint8, min_shape = [10], max_shape = [490], meta_length = 4,
                      meta_max_chunk_size = Some 1000, sample_compression = None\<rparr>,
      chunk_id_encoder_blob = Some kilo_encoder,
      chunks = [name_from_id 0 \<mapsto>
                  \<lparr>data = zeros 10 @ zeros 480 @ zeros 490,
                   shapes_encoder = [[10], [480], [490]],
                   byte_positions_encoder = [(0, 10), (10, 490), (490, 980)]\<rparr>,
                name_from_id 1 \<mapsto>
                  \<lparr>data = zeros 300, shapes_encoder = [[300]],
                   byte_positions_encoder = [(0, 300)]\<rparr>],
      random_ids = word_of_nat,
      ids_drawn = 2\<rparr>"
  unfolding kilo_tensor_def kilo_tensor_result snd_conv ..

lemma kilo_tensor_blob: "chunk_id_encoder_blob kilo_tensor = Some kilo_encoder"
  unfolding kilo_tensor_eq by simp

lemmas update_defs =
  update_def engine_update_sample_def update_loop.simps update_one_def make_sequence_def
  py_len.simps raw_codec_def raw_samples.simps index_list_def update_sample_def local_lookup_def
  shift_range_def warn_if_suboptimal_chunks_def warn_loop.simps CHUNK_UPDATE_WARN_PORTION_def
  get_chunk_for_sample_def enc_getitem_def translate_index_relative_to_chunks_def row_for.simps
  nbytes_def

lemma kilo_update_result:
  "update raw_codec (index_list [0, 1, 2]) kilo_update_batch kilo_tensor =
   (Inr [SuboptimalChunks],
     \<lparr>cache_readonly = False,
      tensor_meta = \<lparr>dtype = Some uint8, min_shape = [10], max_shape = [490], meta_length = 4,
                      meta_max_chunk_size = Some 1000, sample_compression = None\<rparr>,
      chunk_id_encoder_blob = Some kilo_encoder,
      chunks = [name_from_id 1 \<mapsto>
                  \<lparr>data = zeros 300, shapes_encoder = [[300]],
                   byte_positions_encoder = [(0, 300)]\<rparr>,
                name_from_id 0 \<mapsto>
                  \<lparr>data = zeros 490 @ zeros 10 @ zeros 10,
                   shapes_encoder = [[490], [10], [10]],
                   byte_positions_encoder = [(0, 490), (490, 500), (500, 510)]\<rparr>],
      random_ids = word_of_nat,
      ids_drawn = 2\<rparr>)"
  unfolding kilo_tensor_eq
  by (simp add: update_defs engine_defs kilo_update_batch_def zero_sample_def kilo_encoder_def)

lemma kilo_names:
  "chunk_name_at kilo_encoder 0 = name_from_id 0"
  "chunk_name_at kilo_encoder 1 = name_from_id 0"
  "chunk_name_at kilo_encoder 2 = name_from_id 0"
  by (simp_all add: chunk_name_at_def enc_getitem_def kilo_encoder_def)

lemma kilo_last_chunk_key: "fst (last_chunk_key kilo_tensor) = Inr (name_from_id 1)"
  by (simp add: fst_last_chunk_key [OF kilo_tensor_blob] get_name_for_chunk_def
        py_index_def kilo_encoder_def)

text \<open>
  The outcome of this update does not depend on the size of the header, as long as the
  header of the chunk it leaves has at most 690 bytes: the warning is emitted and the
  chunk ends inside the interval.
\<close>

lemma kilo_update_any_header:
  assumes "hdr [[490], [10], [10]] [(0, 490), (490, 500), (500, 510)] \<le> 690"
  shows "fst (update (raw_codec\<lparr>chunk_header_nbytes := hdr\<rparr>) (index_list [0, 1, 2])
                kilo_update_batch kilo_tensor) = Inr [SuboptimalChunks] \<and>
         (\<exists>c. chunks (snd (update (raw_codec\<lparr>chunk_header_nbytes := hdr\<rparr>) (index_list [0, 1, 2])
                             kilo_update_batch kilo_tensor)) (name_from_id 0) = Some c \<and>
              \<not> suboptimal 500 1000 (nbytes hdr c))"
  using assms unfolding kilo_tensor_eq
  by (simp add: update_defs engine_defs kilo_update_batch_def zero_sample_def kilo_encoder_def
        suboptimal_def num_data_bytes_def)

text \<open>
  Claim C8 says that the warning is emitted exactly when some updated chunk other than the
  tail chunk has \<open>nbytes\<close> outside the interval after the update. On \<open>kilo_tensor\<close>
  (\<open>max_chunk_size = 1000\<close>, interval \<open>[400, 1200]\<close>) samples 0, 1 and 2 live in the first
  chunk, which holds 980 data bytes. Rewriting sample 0 with 490 bytes makes it 1460 data
  bytes, above 1200 whatever the header, and this size is recorded; rewriting samples 1
  and 2 with 10 bytes each brings it to 510 data bytes. The warning is emitted although
  the only updated chunk ends with 510 data bytes and a header of 64, inside the interval
  (\<open>kilo_update_any_header\<close> has the same for the other header sizes).
\<close>

theorem update_warns_on_intermediate_size_counterexample:
  "fst (update raw_codec (index_list [0, 1, 2]) kilo_update_batch kilo_tensor) =
     Inr [SuboptimalChunks] \<and>
   chunk_name_at kilo_encoder 0 = name_from_id 0 \<and>
   chunk_name_at kilo_encoder 1 = name_from_id 0 \<and>
   chunk_name_at kilo_encoder 2 = name_from_id 0 \<and>
   fst (last_chunk_key kilo_tensor) = Inr (name_from_id 1) \<and>
   map_option (nbytes (chunk_header_nbytes raw_codec))
     (chunks (snd (update raw_codec (index_list [0, 1, 2]) kilo_update_batch kilo_tensor))
        (name_from_id 0)) = Some 574 \<and>
   \<not> suboptimal
       (min_chunk_size (snd (update raw_codec (index_list [0, 1, 2]) kilo_update_batch kilo_tensor)))
       (max_chunk_size (snd (update raw_codec (index_list [0, 1, 2]) kilo_update_batch kilo_tensor)))
       574"
  unfolding kilo_update_result
  by (simp add: kilo_names kilo_last_chunk_key nbytes_def num_data_bytes_def raw_codec_def
        suboptimal_def min_chunk_size_def max_chunk_size_def CHUNK_UPDATE_WARN_PORTION_def)

text \<open>
  Claim C8, amended. A successful \<open>update\<close> emits at most one warning. It emits one exactly
  when, for some sample \<open>j\<close> of the batch, the chunk rewritten for it is not the tail chunk
  and its \<open>nbytes\<close> right after that rewrite (in the state \<open>rewrite_states \<dots> ! j\<close>) is above
  \<open>max_chunk_size * 1.2\<close> or below \<open>min_chunk_size * 0.8\<close>; a later rewrite of the same batch
  that brings the chunk back inside does not withdraw it. Rewrites of the tail chunk are
  never counted.
\<close>

theorem update_warns_iff_rewrite_leaves_suboptimal_chunk:
  assumes run: "update cd idx samples s = (Inr ws, s')"
    and blob: "chunk_id_encoder_blob s = Some enc"
    and seq: "make_sequence samples (index_length idx (num_samples s)) = Inr seq"
    and ser: "serialize_input_samples cd seq (tensor_meta s) (min_chunk_size s) = Inr ser"
  shows "length ws \<le> 1 \<and>
         (ws \<noteq> [] \<longleftrightarrow>
            (\<exists>j<length ser.
               fst (last_chunk_key s) \<noteq> Inr (chunk_name_at enc (indices idx (num_samples s) ! j)) \<and>
               (\<exists>c. chunks (rewrite_states cd ser 0 (indices idx (num_samples s)) enc s ! j)
                       (chunk_name_at enc (indices idx (num_samples s) ! j)) = Some c \<and>
                    suboptimal (min_chunk_size s) (max_chunk_size s) (nbytes (chunk_header_nbytes cd) c))))"
proof -
  let ?gs = "indices idx (num_samples s)"
  note e = chunk_id_encoder_blob_Some [OF blob]
  from run have ro: "\<not> cache_readonly s"
    by (auto simp: update_def check_readonly_def eng_simps split: if_splits)
  from run ro have single: "is_single_dim_effective idx"
    by (auto simp: update_def check_readonly_def e update_sample_subslice_def eng_simps
             split: if_splits pyval.splits)
  have "update cd idx samples s =
        bind_eng (update_loop cd ser 0 ?gs enc [])
          (\<lambda>chunks_nbytes_after_updates.
             bind_eng (synchronize_cache (Some []))
               (\<lambda>_ s2. ok (warn_if_suboptimal_chunks chunks_nbytes_after_updates
                              (min_chunk_size s2) (max_chunk_size s2)) s2)) s"
    using ro single
    by (simp add: update_def check_readonly_def engine_update_sample_def e seq ser
          bind_eng_def [of check_readonly] bind_eng_def [of chunk_id_encoder]
          bind_eng_def [of "lift (Inr ser)"] ok_def [of "()"] lift_def ok_def [of ser])
  with run obtain nb s2 where loop: "update_loop cd ser 0 ?gs enc [] s = (Inr nb, s2)"
    and fin: "bind_eng (synchronize_cache (Some []))
               (\<lambda>_ s2. ok (warn_if_suboptimal_chunks nb (min_chunk_size s2) (max_chunk_size s2)) s2) s2 =
              (Inr ws, s')"
    by (auto simp: bind_eng_def [of "update_loop cd ser 0 ?gs enc []"] split: prod.splits sum.splits)
  note rec = update_loop_recorded [OF loop blob, of "suboptimal (min_chunk_size s) (max_chunk_size s)"]
  from rec have blob2: "chunk_id_encoder_blob s2 = Some enc"
    and mx: "max_chunk_size s2 = max_chunk_size s"
    by (simp_all add: max_chunk_size_def)
  from fin have ws: "ws = warn_if_suboptimal_chunks nb (min_chunk_size s) (max_chunk_size s)"
    by (simp add: synchronize_cache_no_keys [OF blob2] bind_eng_def ok_def min_chunk_size_def mx)
  show ?thesis
    unfolding ws warn_if_suboptimal_chunks_iff using rec by simp
qed


theorem update_warns_iff_rewrite_leaves_suboptimal_chunk_witness:
  "update raw_codec (index_list [0, 1, 2]) kilo_update_batch kilo_tensor =
     (Inr [SuboptimalChunks],
      snd (update raw_codec (index_list [0, 1, 2]) kilo_update_batch kilo_tensor)) \<and>
   chunk_id_encoder_blob kilo_tensor = Some kilo_encoder \<and>
   make_sequence kilo_update_batch
     (index_length (index_list [0, 1, 2]) (num_samples kilo_tensor)) = Inr kilo_update_batch \<and>
   serialize_input_samples raw_codec kilo_update_batch (tensor_meta kilo_tensor)
     (min_chunk_size kilo_tensor) = Inr [(zeros 490, [490]), (zeros 10, [10]), (zeros 10, [10])] \<and>
   (\<exists>j<3. fst (last_chunk_key kilo_tensor) \<noteq> Inr (chunk_name_at kilo_encoder ([0, 1, 2] ! j)) \<and>
      (\<exists>c. chunks (rewrite_states raw_codec [(zeros 490, [490]), (zeros 10, [10]), (zeros 10, [10])] 0
                     [0, 1, 2] kilo_encoder kilo_tensor ! j)
              (chunk_name_at kilo_encoder ([0, 1, 2] ! j)) = Some c \<and>
           suboptimal (min_chunk_size kilo_tensor) (max_chunk_size kilo_tensor)
             (nbytes (chunk_header_nbytes raw_codec) c)))"
proof -
  have h1: "update raw_codec (index_list [0, 1, 2]) kilo_update_batch kilo_tensor =
     (Inr [SuboptimalChunks],
      snd (update raw_codec (index_list [0, 1, 2]) kilo_update_batch kilo_tensor))"
    unfolding kilo_update_result by simp
  have h3: "make_sequence kilo_update_batch
     (index_length (index_list [0, 1, 2]) (num_samples kilo_tensor)) = Inr kilo_update_batch"
    by (simp add: make_sequence_def index_list_def kilo_update_batch_def)
  have h4: "serialize_input_samples raw_codec kilo_update_batch (tensor_meta kilo_tensor)
     (min_chunk_size kilo_tensor) = Inr [(zeros 490, [490]), (zeros 10, [10]), (zeros 10, [10])]"
    by (simp add: raw_codec_def kilo_update_batch_def zero_sample_def)
  from update_warns_iff_rewrite_leaves_suboptimal_chunk [OF h1 kilo_tensor_blob h3 h4]
  have "\<exists>j<3. fst (last_chunk_key kilo_tensor) \<noteq> Inr (chunk_name_at kilo_encoder ([0, 1, 2] ! j)) \<and>
      (\<exists>c. chunks (rewrite_states raw_codec [(zeros 490, [490]), (zeros 10, [10]), (zeros 10, [10])] 0
                     [0, 1, 2] kilo_encoder kilo_tensor ! j)
              (chunk_name_at kilo_encoder ([0, 1, 2] ! j)) = Some c \<and>
           suboptimal (min_chunk_size kilo_tensor) (max_chunk_size kilo_tensor)
             (nbytes (chunk_header_nbytes raw_codec) c))"
    by (simp add: index_list_def numeral_3_eq_3)
  with h1 kilo_tensor_blob h3 h4 show ?thesis by blast
qed
















lemma same_decoding_refl [simp]: "same_decoding s s"
  by (simp add: same_decoding_def)



















end
